theory Spec2Isabelle
  imports Complex_Main
begin

section \<open>Python values used by the pipeline\<close>

text \<open>
  Python \<open>str\<close> is modelled as \<open>string\<close> (a list of 8-bit characters), Python \<open>int\<close> as
  \<open>int\<close>, and the \<open>float\<close> scores as exact rationals: every score of the program is a
  finite sum of the literals 0.1, 0.3 and 0.4 or a quotient of two small integers.
  The character classes of the regular expressions cover the ASCII range.
\<close>

subsection \<open>Exceptions\<close>

text \<open>
  The subclasses of \<open>Exception\<close> that the \<open>except\<close> clauses of the program tell apart.
  \<open>SyntaxError lineno msg s\<close> carries the attributes \<open>e.lineno\<close> (which may be \<open>None\<close>)
  and \<open>e.msg\<close> and the text \<open>str(e)\<close>; every other constructor carries \<open>str(e)\<close>.
  \<open>OtherException\<close> stands for any exception that is neither a \<open>SyntaxError\<close>, a
  \<open>ValueError\<close>, a \<open>RuntimeError\<close> nor a \<open>yaml.YAMLError\<close>.
\<close>

datatype exn =
    SyntaxError "int option" string string
  | ValueError string
  | RuntimeError string
  | YAMLError string
  | OtherException string

fun str_exn :: "exn \<Rightarrow> string" where
  "str_exn (SyntaxError l m s) = s"
| "str_exn (ValueError s) = s"
| "str_exn (RuntimeError s) = s"
| "str_exn (YAMLError s) = s"
| "str_exn (OtherException s) = s"

subsection \<open>String operations\<close>

definition digit_char :: "nat \<Rightarrow> char" where
  "digit_char d = char_of (48 + d)"

function str_nat :: "nat \<Rightarrow> string" where
  "str_nat n = (if n < 10 then [digit_char n] else str_nat (n div 10) @ [digit_char (n mod 10)])"
  by pat_completeness auto
termination
  by (relation "measure id") auto

declare str_nat.simps [simp del]

definition str_int :: "int \<Rightarrow> string" where
  "str_int i = (if i < 0 then CHR ''-'' # str_nat (nat (- i)) else str_nat (nat i))"

text \<open>\<open>str(x)\<close> of an optional integer: \<open>None\<close> prints as the word None.\<close>

definition str_int_option :: "int option \<Rightarrow> string" where
  "str_int_option x = (case x of None \<Rightarrow> ''None'' | Some i \<Rightarrow> str_int i)"

definition startswith :: "string \<Rightarrow> string \<Rightarrow> bool" where
  "startswith s p = (take (length p) s = p)"

text \<open>\<open>sub in s\<close> for a non-empty \<open>sub\<close>.\<close>

fun contains :: "string \<Rightarrow> string \<Rightarrow> bool" where
  "contains sub [] = (sub = [])"
| "contains sub (c # cs) = (startswith (c # cs) sub \<or> contains sub cs)"

text \<open>
  \<open>s.split(sep)\<close> for a non-empty separator: the pieces between the non-overlapping
  occurrences of \<open>sep\<close>, found from the left. \<open>acc\<close> holds the current piece, reversed.
\<close>

fun split_acc :: "string \<Rightarrow> string \<Rightarrow> string \<Rightarrow> string list" where
  "split_acc sep acc [] = [rev acc]"
| "split_acc sep acc (c # cs) =
     (if startswith (c # cs) sep
      then rev acc # split_acc sep [] (drop (length sep - 1) cs)
      else split_acc sep (c # acc) cs)"

definition py_split :: "string \<Rightarrow> string \<Rightarrow> string list" where
  "py_split s sep = split_acc sep [] s"

text \<open>\<open>sep.join(xs)\<close>.\<close>

fun py_join :: "string \<Rightarrow> string list \<Rightarrow> string" where
  "py_join sep [] = []"
| "py_join sep [x] = x"
| "py_join sep (x # y # ys) = x @ sep @ py_join sep (y # ys)"

text \<open>
  \<open>xs[a:b]\<close> with Python's treatment of negative and out-of-range bounds.
\<close>

definition slice_bound :: "nat \<Rightarrow> int \<Rightarrow> nat" where
  "slice_bound n i = (if i < 0 then nat (max (i + int n) 0) else min (nat i) n)"

definition py_slice :: "'a list \<Rightarrow> int \<Rightarrow> int \<Rightarrow> 'a list" where
  "py_slice xs a b =
     (let lo = slice_bound (length xs) a; hi = slice_bound (length xs) b
      in take (hi - lo) (drop lo xs))"

text \<open>
  \<open>s.find(c, start)\<close> and \<open>s.rfind(c, 0, stop)\<close> for a single character \<open>c\<close> and
  non-negative bounds: the index found, or \<open>-1\<close>.
\<close>

definition py_find :: "string \<Rightarrow> char \<Rightarrow> nat \<Rightarrow> int" where
  "py_find s c start =
     (let r = drop start s
      in if c \<in> set r then int (start + length (takeWhile (\<lambda>x. x \<noteq> c) r)) else - 1)"

definition py_rfind :: "string \<Rightarrow> char \<Rightarrow> nat \<Rightarrow> int" where
  "py_rfind s c stop =
     (let p = take stop s
      in if c \<in> set p then int (length p - 1 - length (takeWhile (\<lambda>x. x \<noteq> c) (rev p)))
         else - 1)"

definition py_count :: "string \<Rightarrow> char \<Rightarrow> nat" where
  "py_count s c = length (filter (\<lambda>x. x = c) s)"

text \<open>
  Python's whitespace in the ASCII range, for \<open>str.strip\<close> and the class \<open>\s\<close>:
  tab to carriage return, the four separators \<open>0x1C\<close> to \<open>0x1F\<close>, and the space.
\<close>

definition is_space :: "char \<Rightarrow> bool" where
  "is_space c =
     (let n = (of_char c :: nat) in (9 \<le> n \<and> n \<le> 13) \<or> (28 \<le> n \<and> n \<le> 32))"

definition py_strip :: "string \<Rightarrow> string" where
  "py_strip s = rev (dropWhile is_space (rev (dropWhile is_space s)))"

definition endswith :: "string \<Rightarrow> string \<Rightarrow> bool" where
  "endswith s p = startswith (rev s) (rev p)"

text \<open>
  \<open>int(s)\<close> for a text: surrounding whitespace (tab to carriage return and the space;
  the separators \<open>0x1C\<close> to \<open>0x1F\<close> are not skipped), an optional sign, and decimal
  digits that single underscores may separate; \<open>None\<close> where Python raises
  \<open>ValueError\<close>.
\<close>

definition is_int_space :: "char \<Rightarrow> bool" where
  "is_int_space c = (let n = (of_char c :: nat) in (9 \<le> n \<and> n \<le> 13) \<or> n = 32)"

definition is_digit :: "char \<Rightarrow> bool" where
  "is_digit c = (let n = (of_char c :: nat) in 48 \<le> n \<and> n \<le> 57)"

fun after_digit :: "string \<Rightarrow> bool" where
  "after_digit [] = True"
| "after_digit [c] = is_digit c"
| "after_digit (c # d # r) =
     (if is_digit c then after_digit (d # r)
      else c = CHR ''_'' \<and> is_digit d \<and> after_digit r)"

fun int_literal :: "string \<Rightarrow> bool" where
  "int_literal [] = False"
| "int_literal (c # r) = (is_digit c \<and> after_digit r)"

definition digits_value :: "string \<Rightarrow> int" where
  "digits_value s =
     foldl (\<lambda>a c. 10 * a + (int (of_char c) - 48)) 0 (filter is_digit s)"

definition py_int :: "string \<Rightarrow> int option" where
  "py_int s =
     (case rev (dropWhile is_int_space (rev (dropWhile is_int_space s))) of
        [] \<Rightarrow> None
      | c # r \<Rightarrow>
          if c = CHR ''-'' then (if int_literal r then Some (- digits_value r) else None)
          else if c = CHR ''+'' then (if int_literal r then Some (digits_value r) else None)
          else if int_literal (c # r) then Some (digits_value (c # r))
          else None)"

text \<open>\<open>range(n)\<close> and \<open>enumerate(xs, start)\<close>.\<close>

definition py_range :: "int \<Rightarrow> int list" where
  "py_range n = map int [0 ..< nat n]"

fun enumerate_from :: "int \<Rightarrow> 'a list \<Rightarrow> (int \<times> 'a) list" where
  "enumerate_from i [] = []"
| "enumerate_from i (x # xs) = (i, x) # enumerate_from (i + 1) xs"

section \<open>code_validator.py\<close>

subsection \<open>Result types\<close>

text \<open>
  \<open>ValidationIssue\<close> and \<open>ValidationResult\<close> with the fields the validators compute.
  The \<open>summary\<close> text of a result, a display string formatted from the other fields
  (\<open>f"Risk score: {risk_score:.2f}, ..."\<close>), is read by no check and is left out.
\<close>

record ValidationIssue =
  severity :: string
  issue_type :: string
  message :: string
  line_number :: int
  suggestion :: string

record ValidationResult =
  valid :: bool
  issues :: "ValidationIssue list"
  risk_score :: rat

subsection \<open>Policy tables\<close>

definition DANGEROUS_FUNCTIONS :: "string set" where
  "DANGEROUS_FUNCTIONS =
     {''eval'', ''exec'', ''compile'', ''__import__'', ''execfile'', ''input'', ''open''}"

definition DANGEROUS_IMPORTS :: "string set" where
  "DANGEROUS_IMPORTS =
     {''subprocess'', ''socket'', ''urllib'', ''pickle'', ''marshal'', ''ctypes'', ''cffi''}"

definition CONDITIONAL_IMPORTS :: "string \<rightharpoonup> string list" where
  "CONDITIONAL_IMPORTS = map_of
     [(''os'', [''getenv'', ''environ.get'', ''path'']),
      (''sys'', [''argv'', ''exit'']),
      (''requests'', [])]"

definition ALLOWED_IMPORTS :: "string set" where
  "ALLOWED_IMPORTS =
     {''typing'', ''dataclasses'', ''enum'', ''abc'', ''collections'',
      ''datetime'', ''decimal'', ''fractions'', ''math'', ''statistics'',
      ''json'', ''re'', ''pathlib'',
      ''pydantic'', ''loguru'', ''sqlalchemy'', ''psycopg2'',
      ''langchain'', ''langchain_openai'', ''langgraph'',
      ''yaml'', ''httpx'',
      ''os'', ''sys'', ''requests''}"

subsection \<open>The structural tree\<close>

text \<open>
  The result of \<open>ast.parse\<close>, with one constructor for each node class the
  validators test for and \<open>OtherNode\<close> for every other class. Each node carries
  \<open>getattr(node, 'lineno', 0)\<close> and its child nodes in the order of
  \<open>ast.iter_child_nodes\<close>; \<open>Import\<close> carries the \<open>name\<close> of each alias and
  \<open>ImportFrom\<close> its \<open>module\<close>. Alias and expression-context nodes, which no check
  inspects, are not part of the tree.
\<close>

datatype node =
    Module "node list"
  | FunctionDef int "node list"
  | ClassDef int "node list"
  | Import int "string list"
  | ImportFrom int "string option"
  | Call int node "node list"
  | Name int string
  | Attribute int node string
  | OtherNode int "node list"

fun children :: "node \<Rightarrow> node list" where
  "children (Module body) = body"
| "children (FunctionDef l cs) = cs"
| "children (ClassDef l cs) = cs"
| "children (Import l names) = []"
| "children (ImportFrom l m) = []"
| "children (Call l f args) = f # args"
| "children (Name l i) = []"
| "children (Attribute l v a) = [v]"
| "children (OtherNode l cs) = cs"

text \<open>\<open>ast.walk\<close>: breadth-first, the queue \<open>todo\<close> extended by the children of each node.\<close>

function walk_queue :: "node list \<Rightarrow> node list" where
  "walk_queue [] = []"
| "walk_queue (n # todo) = n # walk_queue (todo @ children n)"
  by pat_completeness auto
termination
proof (relation "measure (size_list size)")
  show "wf (measure (size_list (size :: node \<Rightarrow> nat)))" by simp
next
  fix n :: node and todo :: "node list"
  have "size_list size (children n) \<le> size n"
    by (cases n) auto
  moreover have "size_list size (todo @ children n)
      = size_list size todo + size_list size (children n)"
    by (simp add: size_list_append)
  ultimately show "(todo @ children n, n # todo) \<in> measure (size_list size)"
    by simp
qed

definition walk :: "node \<Rightarrow> node list" where
  "walk tree = walk_queue [tree]"

fun is_ClassDef :: "node \<Rightarrow> bool" where
  "is_ClassDef (ClassDef l cs) = True"
| "is_ClassDef _ = False"

fun is_FunctionDef :: "node \<Rightarrow> bool" where
  "is_FunctionDef (FunctionDef l cs) = True"
| "is_FunctionDef _ = False"

subsection \<open>validate_code_syntax\<close>

definition empty_code_warning :: ValidationIssue where
  "empty_code_warning =
     \<lparr>severity = ''WARNING'', issue_type = ''syntax'',
      message = ''Code is empty or contains only comments'',
      line_number = 0,
      suggestion = ''Ensure code contains actual implementation''\<rparr>"

definition no_structure_warning :: ValidationIssue where
  "no_structure_warning =
     \<lparr>severity = ''WARNING'', issue_type = ''syntax'',
      message = ''Code contains no classes or functions'',
      line_number = 0,
      suggestion = ''Agent code should contain at least a class definition''\<rparr>"

text \<open>\<open>tree.body\<close>: the statements of the module returned by \<open>ast.parse\<close>.\<close>

fun body :: "node \<Rightarrow> node list" where
  "body (Module b) = b"
| "body n = children n"

text \<open>\<open>e.lineno or 0\<close>.\<close>

definition lineno_or_0 :: "int option \<Rightarrow> int" where
  "lineno_or_0 l = (case l of None \<Rightarrow> 0 | Some i \<Rightarrow> i)"

definition syntax_checks :: "node \<Rightarrow> ValidationResult" where
  "syntax_checks tree =
     (let issues0 = (if body tree = [] then [empty_code_warning] else []);
          has_class = list_ex is_ClassDef (walk tree);
          has_function = list_ex is_FunctionDef (walk tree);
          issues1 = (if \<not> has_class \<and> \<not> has_function
                     then issues0 @ [no_structure_warning] else issues0)
      in \<lparr>valid = (length (filter (\<lambda>i. severity i = ''ERROR'') issues1) = 0),
          issues = issues1,
          risk_score = 0\<rparr>)"

text \<open>
  The parser \<open>ast.parse\<close> belongs to the Python runtime: it is a parameter of the model,
  a function from the text to the tree or to the exception it raises.
\<close>

type_synonym parser = "string \<Rightarrow> exn + node"

text \<open>
  The outcome of a call is the exception it raises (\<open>Inl\<close>) or the value it returns
  (\<open>Inr\<close>). Both handlers of \<open>validate_code_syntax\<close> return a result.
\<close>

definition validate_code_syntax :: "parser \<Rightarrow> string \<Rightarrow> exn + ValidationResult" where
  "validate_code_syntax ast_parse code =
     (case ast_parse code of
        Inr tree \<Rightarrow> Inr (syntax_checks tree)
      | Inl (SyntaxError l m s) \<Rightarrow>
          Inr \<lparr>valid = False,
               issues = [\<lparr>severity = ''ERROR'', issue_type = ''syntax'',
                          message = ''Syntax error: '' @ m,
                          line_number = lineno_or_0 l,
                          suggestion = ''Fix syntax error before proceeding''\<rparr>],
               risk_score = 0\<rparr>
      | Inl e \<Rightarrow>
          Inr \<lparr>valid = False,
               issues = [\<lparr>severity = ''ERROR'', issue_type = ''syntax'',
                          message = ''Failed to parse code: '' @ str_exn e,
                          line_number = 0,
                          suggestion = ''Check code structure''\<rparr>],
               risk_score = 0\<rparr>)"

subsection \<open>validate_code_security: call-site and import policy\<close>

text \<open>
  The local variables of \<open>validate_code_security\<close> that the checks update:
  \<open>issues\<close>, \<open>risk_score\<close>, \<open>imported_modules\<close> and \<open>conditional_modules\<close>.
\<close>

record scan =
  sc_issues :: "ValidationIssue list"
  sc_risk :: rat
  sc_imported :: "string set"
  sc_conditional :: "string \<rightharpoonup> string list"

definition add_issue :: "ValidationIssue \<Rightarrow> rat \<Rightarrow> scan \<Rightarrow> scan" where
  "add_issue i r st = st\<lparr>sc_issues := sc_issues st @ [i], sc_risk := sc_risk st + r\<rparr>"

text \<open>Check 1. The called name: \<open>node.func.id\<close> of a name, \<open>node.func.attr\<close> of an attribute.\<close>

fun call_func_name :: "node \<Rightarrow> string option" where
  "call_func_name (Name l i) = Some i"
| "call_func_name (Attribute l v a) = Some a"
| "call_func_name _ = None"

definition dangerous_call_issue :: "string \<Rightarrow> int \<Rightarrow> ValidationIssue" where
  "dangerous_call_issue func_name l =
     \<lparr>severity = ''ERROR'', issue_type = ''security'',
      message = ''Dangerous function call: '' @ func_name @ ''()'',
      line_number = l,
      suggestion = ''Remove '' @ func_name @ ''() - not allowed in generated agents''\<rparr>"

fun check_call :: "scan \<Rightarrow> node \<Rightarrow> scan" where
  "check_call st (Call l f args) =
     (case call_func_name f of
        None \<Rightarrow> st
      | Some func_name \<Rightarrow>
          if func_name \<in> DANGEROUS_FUNCTIONS
          then add_issue (dangerous_call_issue func_name l) (3 / 10) st
          else st)"
| "check_call st _ = st"

text \<open>Check 2. \<open>alias.name.split('.')[0]\<close>: a split always has a first piece.\<close>

definition module_root :: "string \<Rightarrow> string" where
  "module_root name = hd (py_split name ''.'')"

definition dangerous_import_issue :: "string \<Rightarrow> int \<Rightarrow> ValidationIssue" where
  "dangerous_import_issue modl l =
     \<lparr>severity = ''ERROR'', issue_type = ''security'',
      message = ''Dangerous import: '' @ modl,
      line_number = l,
      suggestion = ''Remove '' @ [CHR 0x27] @ ''import '' @ modl @ [CHR 0x27] @ '' - not allowed''\<rparr>"

definition dangerous_from_issue :: "string \<Rightarrow> int \<Rightarrow> ValidationIssue" where
  "dangerous_from_issue modl l =
     \<lparr>severity = ''ERROR'', issue_type = ''security'',
      message = ''Dangerous import: from '' @ modl,
      line_number = l,
      suggestion = ''Remove '' @ [CHR 0x27] @ ''from '' @ modl @ '' import ...''
                   @ [CHR 0x27] @ '' - not allowed''\<rparr>"

definition uncommon_import_issue :: "string \<Rightarrow> int \<Rightarrow> ValidationIssue" where
  "uncommon_import_issue modl l =
     \<lparr>severity = ''WARNING'', issue_type = ''security'',
      message = ''Uncommon import: '' @ modl,
      line_number = l,
      suggestion = ''Verify '' @ modl @ '' is necessary and safe''\<rparr>"

definition track_conditional :: "string \<Rightarrow> scan \<Rightarrow> scan" where
  "track_conditional modl st =
     st\<lparr>sc_conditional := (sc_conditional st)(modl := CONDITIONAL_IMPORTS modl)\<rparr>"

definition check_alias :: "int \<Rightarrow> scan \<Rightarrow> string \<Rightarrow> scan" where
  "check_alias l st name =
     (let modl = module_root name;
          st1 = st\<lparr>sc_imported := insert modl (sc_imported st)\<rparr>
      in if modl \<in> DANGEROUS_IMPORTS
         then add_issue (dangerous_import_issue modl l) (4 / 10) st1
         else if CONDITIONAL_IMPORTS modl \<noteq> None
         then track_conditional modl st1
         else if modl \<notin> ALLOWED_IMPORTS \<and> \<not> startswith modl ''meta_agent''
         then add_issue (uncommon_import_issue modl l) (1 / 10) st1
         else st1)"

fun check_import :: "scan \<Rightarrow> node \<Rightarrow> scan" where
  "check_import st (Import l names) = foldl (check_alias l) st names"
| "check_import st (ImportFrom l None) = st"
| "check_import st (ImportFrom l (Some m)) =
     (if m = [] then st
      else
        (let modl = module_root m;
             st1 = st\<lparr>sc_imported := insert modl (sc_imported st)\<rparr>
         in if modl \<in> DANGEROUS_IMPORTS
            then add_issue (dangerous_from_issue modl l) (4 / 10) st1
            else if CONDITIONAL_IMPORTS modl \<noteq> None
            then track_conditional modl st1
            else st1))"
| "check_import st _ = st"

text \<open>
  Check 2b. Only a call \<open>module.func(...)\<close> on a plain name is judged; the branch
  for \<open>os.environ.get\<close> does nothing.
\<close>

definition unsafe_usage_issue ::
  "string \<Rightarrow> string \<Rightarrow> string list \<Rightarrow> int \<Rightarrow> ValidationIssue" where
  "unsafe_usage_issue module_name func_name allowed_funcs l =
     \<lparr>severity = ''ERROR'', issue_type = ''security'',
      message = ''Unsafe usage of '' @ module_name @ ''.'' @ func_name @ ''()'',
      line_number = l,
      suggestion = ''Only '' @ py_join '', '' allowed_funcs @ '' are allowed for ''
                   @ module_name\<rparr>"

fun check_usage :: "scan \<Rightarrow> node \<Rightarrow> scan" where
  "check_usage st (Call l (Attribute l1 (Name l2 module_name) func_name) args) =
     (case sc_conditional st module_name of
        None \<Rightarrow> st
      | Some allowed_funcs \<Rightarrow>
          if allowed_funcs \<noteq> [] \<and> func_name \<notin> set allowed_funcs
          then add_issue (unsafe_usage_issue module_name func_name allowed_funcs l) (3 / 10) st
          else st)"
| "check_usage st _ = st"

subsection \<open>validate_code_security: credential literals\<close>

text \<open>
  The regular expressions of check 3, as matchers on the ASCII range.
  \<open>\s\<close> is the whitespace of \<open>is_space\<close>, \<open>\w\<close> a letter, a digit or the underscore.
\<close>

definition is_word :: "char \<Rightarrow> bool" where
  "is_word c =
     (let n = (of_char c :: nat)
      in (48 \<le> n \<and> n \<le> 57) \<or> (65 \<le> n \<and> n \<le> 90) \<or> (97 \<le> n \<and> n \<le> 122) \<or> n = 95)"

definition is_quote :: "char \<Rightarrow> bool" where
  "is_quote c = (c = CHR 0x22 \<or> c = CHR 0x27)"

text \<open>The class \<open>[^"'\n]\<close>.\<close>

definition is_literal_char :: "char \<Rightarrow> bool" where
  "is_literal_char c = (\<not> is_quote c \<and> c \<noteq> CHR 0x0A)"

text \<open>\<open>re.IGNORECASE\<close>: an upper-case letter of the text matches its lower-case letter.\<close>

definition lower_char :: "char \<Rightarrow> char" where
  "lower_char c =
     (let n = (of_char c :: nat) in if 65 \<le> n \<and> n \<le> 90 then char_of (n + 32) else c)"

text \<open>
  A match of \<open>kw\s*=\s*["'][cls]{k,}["']\<close> at the start of \<open>s\<close>: the length of the
  match, if there is one. Neither whitespace, the equals sign, a quote nor a character
  of the class can stand for one another, so the greedy repetitions never back off.
\<close>

definition cred_match_at :: "string \<Rightarrow> (char \<Rightarrow> bool) \<Rightarrow> nat \<Rightarrow> string \<Rightarrow> nat option" where
  "cred_match_at kw cls k s =
     (if map lower_char (take (length kw) s) \<noteq> kw then None
      else
        (case dropWhile is_space (drop (length kw) s) of
           [] \<Rightarrow> None
         | e # r1 \<Rightarrow>
             (if e \<noteq> CHR ''='' then None
              else
                (case dropWhile is_space r1 of
                   [] \<Rightarrow> None
                 | q # r2 \<Rightarrow>
                     (if \<not> is_quote q \<or> length (takeWhile cls r2) < k then None
                      else
                        (case dropWhile cls r2 of
                           [] \<Rightarrow> None
                         | q2 # r3 \<Rightarrow>
                             (if is_quote q2 then Some (length s - length r3) else None)))))))"

text \<open>
  \<open>re.finditer\<close>: the spans \<open>(match.start(), match.end())\<close> of the non-overlapping
  matches from the left; \<open>pos\<close> is the index of the first character of the rest.
  The search resumes at the end of a match.
\<close>

fun cred_finditer ::
  "string \<Rightarrow> (char \<Rightarrow> bool) \<Rightarrow> nat \<Rightarrow> nat \<Rightarrow> string \<Rightarrow> (nat \<times> nat) list" where
  "cred_finditer kw cls k pos [] = []"
| "cred_finditer kw cls k pos (c # cs) =
     (case cred_match_at kw cls k (c # cs) of
        None \<Rightarrow> cred_finditer kw cls k (Suc pos) cs
      | Some n \<Rightarrow> (pos, pos + n) # cred_finditer kw cls k (pos + n) (drop (n - 1) cs))"

definition hardcoded_patterns :: "((string \<times> (char \<Rightarrow> bool) \<times> nat) \<times> string) list" where
  "hardcoded_patterns =
     [((''password'', is_word, 3), ''Hardcoded password''),
      ((''api_key'', is_literal_char, 8), ''Hardcoded API key''),
      ((''secret'', is_literal_char, 8), ''Hardcoded secret''),
      ((''token'', is_literal_char, 8), ''Hardcoded token'')]"

text \<open>
  \<open>re.search\<close> of the safe patterns. \<open>search_assign P s\<close>: some equals sign of \<open>s\<close>,
  followed by whitespace, is followed by a text that \<open>P\<close> accepts.
\<close>

fun search_assign :: "(string \<Rightarrow> bool) \<Rightarrow> string \<Rightarrow> bool" where
  "search_assign P [] = False"
| "search_assign P (c # cs) =
     ((c = CHR ''='' \<and> P (dropWhile is_space cs)) \<or> search_assign P cs)"

fun two_quotes :: "string \<Rightarrow> bool" where
  "two_quotes (a # b # r) = (is_quote a \<and> is_quote b)"
| "two_quotes _ = False"

definition safe_patterns :: "(string \<Rightarrow> bool) list" where
  "safe_patterns =
     [contains ''os.getenv('',
      contains ''os.environ'',
      contains ''getenv('',
      search_assign two_quotes,
      search_assign (\<lambda>r. startswith r [CHR 0x22, CHR 0x22]),
      search_assign (\<lambda>r. startswith r [CHR 0x27, CHR 0x27])]"

text \<open>
  \<open>code[code.rfind('\n', 0, match.start())+1 : code.find('\n', match.end())]\<close>
\<close>

definition matched_line :: "string \<Rightarrow> nat \<times> nat \<Rightarrow> string" where
  "matched_line code m =
     py_slice code (py_rfind code CHR 0x0A (fst m) + 1) (py_find code CHR 0x0A (snd m))"

definition hardcoded_issue :: "string \<Rightarrow> int \<Rightarrow> ValidationIssue" where
  "hardcoded_issue msg line_num =
     \<lparr>severity = ''ERROR'', issue_type = ''security'',
      message = msg,
      line_number = line_num,
      suggestion = ''Use environment variables or config instead''\<rparr>"

definition check_match :: "string \<Rightarrow> string \<Rightarrow> scan \<Rightarrow> nat \<times> nat \<Rightarrow> scan" where
  "check_match code msg st m =
     (let is_safe = list_ex (\<lambda>safe_pattern. safe_pattern (matched_line code m)) safe_patterns
      in if \<not> is_safe
         then add_issue (hardcoded_issue msg (int (py_count (take (fst m) code) CHR 0x0A) + 1))
                (3 / 10) st
         else st)"

definition check_pattern ::
  "string \<Rightarrow> scan \<Rightarrow> (string \<times> (char \<Rightarrow> bool) \<times> nat) \<times> string \<Rightarrow> scan" where
  "check_pattern code st p =
     (case p of ((kw, cls, k), msg) \<Rightarrow>
        foldl (check_match code msg) st (cred_finditer kw cls k 0 code))"

subsection \<open>validate_code_security: complexity and verdict\<close>

definition function_count_issue :: "nat \<Rightarrow> ValidationIssue" where
  "function_count_issue function_count =
     \<lparr>severity = ''WARNING'', issue_type = ''quality'',
      message = ''Very high function count: '' @ str_nat function_count,
      line_number = 0,
      suggestion = ''Consider breaking into multiple files''\<rparr>"

definition check_complexity :: "node \<Rightarrow> scan \<Rightarrow> scan" where
  "check_complexity tree st =
     (let function_count = length (filter is_FunctionDef (walk tree))
      in if 50 < function_count
         then st\<lparr>sc_issues := sc_issues st @ [function_count_issue function_count]\<rparr>
         else st)"

definition initial_scan :: scan where
  "initial_scan = \<lparr>sc_issues = [], sc_risk = 0, sc_imported = {}, sc_conditional = Map.empty\<rparr>"

text \<open>The four checks in the order of the source, on the variables of \<open>initial_scan\<close>.\<close>

definition run_checks :: "node \<Rightarrow> string \<Rightarrow> scan" where
  "run_checks tree code =
     (let st1 = foldl check_call initial_scan (walk tree);
          st2 = foldl check_import st1 (walk tree);
          st3 = foldl check_usage st2 (walk tree);
          st4 = foldl (check_pattern code) st3 hardcoded_patterns
      in check_complexity tree st4)"

definition verdict :: "scan \<Rightarrow> ValidationResult" where
  "verdict st =
     (let risk = min (sc_risk st) 1;
          has_errors = list_ex (\<lambda>i. severity i = ''ERROR'') (sc_issues st);
          is_safe = (\<not> has_errors \<and> risk < 5 / 10)
      in \<lparr>valid = is_safe, issues = sc_issues st, risk_score = risk\<rparr>)"

text \<open>
  The body of the \<open>try\<close> block: the exception of the parser, or the result.
  The handler \<open>except Exception\<close> turns the exception into a result.
\<close>

definition security_try :: "parser \<Rightarrow> string \<Rightarrow> exn + ValidationResult" where
  "security_try ast_parse code =
     (case ast_parse code of
        Inl e \<Rightarrow> Inl e
      | Inr tree \<Rightarrow> Inr (verdict (run_checks tree code)))"

definition security_failed :: "exn \<Rightarrow> ValidationResult" where
  "security_failed e =
     \<lparr>valid = False,
      issues = [\<lparr>severity = ''ERROR'', issue_type = ''security'',
                 message = ''Security validation failed: '' @ str_exn e,
                 line_number = 0,
                 suggestion = ''Fix syntax errors first''\<rparr>],
      risk_score = 1\<rparr>"

definition validate_code_security :: "parser \<Rightarrow> string \<Rightarrow> exn + ValidationResult" where
  "validate_code_security ast_parse code =
     (case security_try ast_parse code of
        Inl e \<Rightarrow> Inr (security_failed e)
      | Inr result \<Rightarrow> Inr result)"

subsection \<open>validate_code\<close>

text \<open>
  The combined validator, with the log of the validators it invokes, in order.
  It has no handler of its own: an exception of a validator would pass through.
\<close>

datatype invocation = SyntaxValidation string | SecurityValidation string

definition validate_code ::
  "parser \<Rightarrow> string \<Rightarrow> invocation list \<times> (exn + ValidationResult)" where
  "validate_code ast_parse code =
     (case validate_code_syntax ast_parse code of
        Inl e \<Rightarrow> ([SyntaxValidation code], Inl e)
      | Inr syntax_result \<Rightarrow>
          if \<not> valid syntax_result
          then ([SyntaxValidation code], Inr syntax_result)
          else
            (case validate_code_security ast_parse code of
               Inl e \<Rightarrow> ([SyntaxValidation code, SecurityValidation code], Inl e)
             | Inr security_result \<Rightarrow>
                 (let all_issues = issues syntax_result @ issues security_result;
                      overall_valid = (valid syntax_result \<and> valid security_result)
                  in ([SyntaxValidation code, SecurityValidation code],
                      Inr \<lparr>valid = overall_valid, issues = all_issues,
                           risk_score = risk_score security_result\<rparr>))))"

section \<open>validate_agent_specification.py\<close>

subsection \<open>Documents\<close>

text \<open>
  A value loaded by \<open>yaml.safe_load\<close>. \<open>YOpaque t b\<close> is a value of any other type
  (a date, a byte string, a set), with the name of its type and its truth value.
  A parsed specification is a dictionary with string keys: a map from keys to values.
\<close>

datatype yaml =
    YNull
  | YBool bool
  | YInt int
  | YFloat rat
  | YStr string
  | YList "yaml list"
  | YDict "(string \<times> yaml) list"
  | YOpaque string bool

text \<open>Python's truth value of a loaded value, as tested by \<open>field in spec and spec[field]\<close>.\<close>

fun truthy :: "yaml \<Rightarrow> bool" where
  "truthy YNull = False"
| "truthy (YBool b) = b"
| "truthy (YInt i) = (i \<noteq> 0)"
| "truthy (YFloat r) = (r \<noteq> 0)"
| "truthy (YStr s) = (s \<noteq> [])"
| "truthy (YList xs) = (xs \<noteq> [])"
| "truthy (YDict kvs) = (kvs \<noteq> [])"
| "truthy (YOpaque t b) = b"

type_synonym spec_document = "string \<rightharpoonup> yaml"

subsection \<open>The tracked fields\<close>

datatype py_type = Tstr | Tlist | Tdict

definition REQUIRED_FIELDS :: "(string \<times> py_type list) list" where
  "REQUIRED_FIELDS =
     [(''agent_name'', [Tstr]),
      (''agent_type'', [Tstr]),
      (''version'', [Tstr]),
      (''description'', [Tstr]),
      (''role'', [Tstr]),
      (''capabilities'', [Tlist, Tdict]),
      (''workflow'', [Tdict]),
      (''dependencies'', [Tdict])]"

definition OPTIONAL_FIELDS :: "(string \<times> py_type list) list" where
  "OPTIONAL_FIELDS =
     [(''data_sources'', [Tlist, Tdict]),
      (''tools'', [Tlist]),
      (''performance'', [Tdict]),
      (''logging'', [Tdict]),
      (''testing'', [Tdict])]"

subsection \<open>The completeness score\<close>

text \<open>\<open>field in spec and spec[field]\<close>\<close>

definition present :: "spec_document \<Rightarrow> string \<Rightarrow> bool" where
  "present spec field = (case spec field of None \<Rightarrow> False | Some v \<Rightarrow> truthy v)"

text \<open>
  \<open>_calculate_completeness\<close>: one count for each field of the two tables that is
  present with a true value, divided by the number of fields, times 100.
\<close>

definition calculate_completeness :: "spec_document \<Rightarrow> rat" where
  "calculate_completeness spec =
     (let total_fields = length REQUIRED_FIELDS + length OPTIONAL_FIELDS;
          present_fields = length (filter (present spec) (map fst REQUIRED_FIELDS))
                         + length (filter (present spec) (map fst OPTIONAL_FIELDS))
      in (of_nat present_fields / of_nat total_fields) * 100)"

text \<open>The validator of the field \<open>completeness_score\<close> of \<open>SpecValidationResult\<close>.\<close>

definition validate_score :: "rat \<Rightarrow> exn + rat" where
  "validate_score v =
     (if \<not> (0 \<le> v \<and> v \<le> 100)
      then Inl (ValueError ''Completeness score must be between 0 and 100'')
      else Inr v)"

section \<open>generate_agent_code.py\<close>

subsection \<open>The texts of the prompts\<close>

text \<open>
  A text of several lines is written as the list of its lines, joined by the newline
  character. Characters outside the printable ASCII range, the quotes and the backquote
  are written by their byte values.
\<close>

definition NL :: string where
  "NL = [CHR 0x0A]"

definition lines_text :: "string list \<Rightarrow> string" where
  "lines_text ls = py_join NL ls"

text \<open>The system prompt of \<open>generate_agent_code\<close>.\<close>

definition agent_system_prompt :: "string" where
  "agent_system_prompt =
     lines_text
       [''You are an expert Python developer specializing in agent systems.'',
        ''Your task is to generate production-ready Python code from a YAML specification.'',
        [],
        ''REQUIREMENTS:'',
        ''1. Generate complete, working Python code'',
        ''2. Follow PEP 8 style guide strictly'',
        ''3. Use type hints throughout (from typing import ...)'',
        ''4. Include comprehensive docstrings (Google style)'',
        ''5. Use Pydantic for data validation'',
        ''6. Use loguru for logging'',
        ''7. Include error handling (try/except with specific exceptions)'',
        ''8. NO hardcoded values - all config from environment or parameters'',
        ''9. Make it compatible with the agent system (proper imports, structure)'',
        ''10. Include __init__ method with proper initialization'',
        ''11. All methods should have clear purpose and clean implementation'',
        ''12. ENSURE ALL CODE IS SYNTACTICALLY VALID - no incomplete functions or classes'',
        ''13. EVERY function and class MUST have a complete body'',
        ''14. ALL brackets, parentheses, and quotes MUST be properly closed'',
        [],
        ''SECURITY - CRITICAL RULES:'',
        ''- NEVER hardcode passwords, API keys, tokens, or secrets'',
        ''- ALWAYS use os.getenv() for sensitive configuration (e.g., os.getenv('' @ [CHR 0x27] @ ''DATABASE_URL'' @ [CHR 0x27] @ ''))'',
        ''- Database credentials must come from environment variables'',
        ''- Use empty strings '' @ [CHR 0x22, CHR 0x22] @ '' for default password values, NOT example values like '' @ [CHR 0x22] @ ''admin'' @ [CHR 0x22] @ '' or '' @ [CHR 0x22] @ ''password123'' @ [CHR 0x22],
        ''- Example: password = os.getenv('' @ [CHR 0x27] @ ''DB_PASSWORD'' @ [CHR 0x27] @ '', '' @ [CHR 0x27, CHR 0x27] @ '') '' @ [CHR 0xE2, CHR 0x9C, CHR 0x93],
        ''- Example: password = '' @ [CHR 0x22] @ ''admin'' @ [CHR 0x22] @ '' '' @ [CHR 0xE2, CHR 0x9C, CHR 0x97] @ '' WRONG'',
        [],
        ''CODE STRUCTURE:'',
        ''- Imports at top (standard library, then third-party, then local)'',
        ''- Pydantic models for data structures (if needed)'',
        ''- Main agent class'',
        ''- All methods with docstrings'',
        ''- Proper error handling in each method'',
        ''- Logger statements for key operations'',
        [],
        ''CRITICAL - CODE COMPLETENESS:'',
        ''- The generated code MUST parse without syntax errors'',
        ''- DO NOT truncate output - generate the ENTIRE implementation'',
        ''- Every function definition needs a body (cannot end with just a colon)'',
        ''- Every class definition needs a body'',
        ''- All strings must be properly quoted'',
        ''- All parentheses, brackets, and braces must be balanced'',
        [],
        ''IMPORTANT:'',
        ''- Output ONLY Python code, no explanations'',
        ''- Code must be syntactically correct and complete'',
        ''- No placeholder or TODO comments'',
        ''- Complete, working implementation based on spec'',
        ''- All sensitive values from environment variables'',
        []]"

text \<open>The user prompt: the specification, then the additional instructions of the retry.\<close>

definition agent_user_prompt :: "string \<Rightarrow> string \<Rightarrow> string" where
  "agent_user_prompt yaml_specification additional_instructions =
     lines_text
       [''Generate complete Python code for this agent:'',
        [],
        ''YAML SPECIFICATION:'',
        [CHR 0x60, CHR 0x60, CHR 0x60] @ ''yaml'',
        yaml_specification,
        [CHR 0x60, CHR 0x60, CHR 0x60],
        [],
        ''Generate production-ready Python code following all requirements.'',
        ''The code should be complete and directly usable.'' @ additional_instructions]"

text \<open>The additional instructions built after a failed attempt of \<open>generate_agent_code_with_retry\<close>.\<close>

definition syntax_feedback :: "string \<Rightarrow> string \<Rightarrow> string" where
  "syntax_feedback syntax_error context =
     lines_text
       [[],
        [],
        [CHR 0xE2, CHR 0x9A, CHR 0xA0, CHR 0xEF, CHR 0xB8, CHR 0x8F] @ '' PREVIOUS ATTEMPT FAILED WITH SYNTAX ERROR:'',
        syntax_error,
        [],
        ''Code context around the error:'',
        context,
        [],
        ''CRITICAL FIX REQUIRED:'',
        ''1. The code MUST be syntactically valid Python'',
        ''2. ALL brackets, parentheses, and braces MUST be properly closed'',
        ''3. ALL function and class definitions MUST have proper bodies'',
        ''4. ALL strings MUST have matching quotes'',
        ''5. Check indentation carefully - Python requires consistent indentation'',
        ''6. DO NOT leave any incomplete statements'',
        ''7. DO NOT truncate the code - generate the COMPLETE implementation'',
        [],
        ''Generate COMPLETE, VALID Python code. Every function must have a body. Every class must be complete.'',
        []]"


subsection \<open>Collaborators and effects\<close>

text \<open>
  The collaborators of the generation step are parameters of the model:
  \<open>yaml.safe_load\<close>; \<open>llm_client.generate\<close>, whose answer may depend on the number of
  calls made before and on the two prompts; \<open>ast.parse\<close>; and the opening and writing
  of a file, which returns the exception raised, if any.
  The world records the effects: the prompts of the calls to the generator and the
  files written, both in order.
\<close>

record env =
  env_yaml_load :: "string \<Rightarrow> exn + yaml"
  env_llm :: "nat \<Rightarrow> string \<Rightarrow> string \<Rightarrow> exn + string"
  env_parse :: parser
  env_write :: "string \<Rightarrow> string \<Rightarrow> exn option"

record world =
  llm_calls :: "(string \<times> string) list"
  files :: "(string \<times> string) list"

definition call_llm :: "env \<Rightarrow> string \<Rightarrow> string \<Rightarrow> world \<Rightarrow> (exn + string) \<times> world" where
  "call_llm env system_prompt user_prompt w =
     (env_llm env (length (llm_calls w)) system_prompt user_prompt,
      w\<lparr>llm_calls := llm_calls w @ [(system_prompt, user_prompt)]\<rparr>)"

subsection \<open>generate_agent_code\<close>

text \<open>
  The dictionary returned by \<open>generate_agent_code\<close>; \<open>gen_retry_count\<close> is the entry
  \<open>retry_count\<close>, absent until the retry loop sets it. The parameter \<open>style_guide\<close>,
  which neither function reads, is left out.
\<close>

record code_metadata =
  md_lines :: nat
  md_complexity :: yaml
  md_has_docstrings :: bool
  md_has_type_hints :: bool
  md_has_error_handling :: bool
  md_agent_name :: yaml
  md_agent_type :: yaml

record generated =
  gen_code :: string
  gen_metadata :: code_metadata
  gen_retry_count :: "int option"

definition dict_get :: "(string \<times> yaml) list \<Rightarrow> string \<Rightarrow> yaml \<Rightarrow> yaml" where
  "dict_get kvs k d = (case map_of kvs k of None \<Rightarrow> d | Some v \<Rightarrow> v)"

fun type_name :: "yaml \<Rightarrow> string" where
  "type_name YNull = ''NoneType''"
| "type_name (YBool b) = ''bool''"
| "type_name (YInt i) = ''int''"
| "type_name (YFloat r) = ''float''"
| "type_name (YStr s) = ''str''"
| "type_name (YList xs) = ''list''"
| "type_name (YDict kvs) = ''dict''"
| "type_name (YOpaque t b) = t"

text \<open>
  The first \<open>try\<close> block: only \<open>yaml.YAMLError\<close> is turned into a \<open>ValueError\<close>; a
  loaded value that is not a dictionary has no method \<open>get\<close> (an \<open>AttributeError\<close>).
  The result is \<open>(agent_name, agent_type, complexity)\<close>.
\<close>

definition load_spec :: "env \<Rightarrow> string \<Rightarrow> exn + (yaml \<times> yaml \<times> yaml)" where
  "load_spec env yaml_specification =
     (case env_yaml_load env yaml_specification of
        Inl (YAMLError s) \<Rightarrow> Inl (ValueError (''Invalid YAML specification: '' @ s))
      | Inl e \<Rightarrow> Inl e
      | Inr (YDict kvs) \<Rightarrow>
          Inr (dict_get kvs ''agent_name'' (YStr ''UnknownAgent''),
               dict_get kvs ''agent_type'' (YStr ''unknown''),
               dict_get kvs ''complexity'' (YStr ''MEDIUM''))
      | Inr v \<Rightarrow>
          Inl (OtherException ([CHR 0x27] @ type_name v @ [CHR 0x27]
                 @ '' object has no attribute '' @ [CHR 0x27] @ ''get'' @ [CHR 0x27])))"

text \<open>The removal of the fenced-code markers around the answer.\<close>

definition strip_fences :: "string \<Rightarrow> string" where
  "strip_fences text =
     (let c0 = py_strip text;
          c1 = (if startswith c0 ([CHR 0x60, CHR 0x60, CHR 0x60] @ ''python'') then drop 9 c0 else c0);
          c2 = (if startswith c1 [CHR 0x60, CHR 0x60, CHR 0x60] then drop 3 c1 else c1);
          c3 = (if endswith c2 [CHR 0x60, CHR 0x60, CHR 0x60] then py_slice c2 0 (- 3) else c2)
      in py_strip c3)"

definition make_metadata :: "string \<Rightarrow> yaml \<times> yaml \<times> yaml \<Rightarrow> code_metadata" where
  "make_metadata code names =
     (case names of (agent_name, agent_type, complexity) \<Rightarrow>
        \<lparr>md_lines = length (py_split code NL),
         md_complexity = complexity,
         md_has_docstrings = (contains [CHR 0x22, CHR 0x22, CHR 0x22] code
                              \<or> contains [CHR 0x27, CHR 0x27, CHR 0x27] code),
         md_has_type_hints = (contains ''->'' code \<or> contains '': '' code),
         md_has_error_handling = (contains ''try:'' code \<and> contains ''except'' code),
         md_agent_name = agent_name,
         md_agent_type = agent_type\<rparr>)"

definition generate_agent_code ::
  "env \<Rightarrow> string \<Rightarrow> string \<Rightarrow> world \<Rightarrow> (exn + generated) \<times> world" where
  "generate_agent_code env yaml_specification additional_instructions w =
     (case load_spec env yaml_specification of
        Inl e \<Rightarrow> (Inl e, w)
      | Inr names \<Rightarrow>
          (case call_llm env agent_system_prompt
                  (agent_user_prompt yaml_specification additional_instructions) w of
             (Inl e, w1) \<Rightarrow>
               (Inl (RuntimeError (''Code generation failed: '' @ str_exn e
                       @ ''. This indicates an issue with LLM response.'')), w1)
           | (Inr text, w1) \<Rightarrow>
               (let code = strip_fences text
                in (Inr \<lparr>gen_code = code, gen_metadata = make_metadata code names,
                         gen_retry_count = None\<rparr>, w1))))"

subsection \<open>generate_agent_code_with_retry\<close>

definition check_syntax :: "parser \<Rightarrow> string \<Rightarrow> string option" where
  "check_syntax ast_parse code =
     (case ast_parse code of
        Inr tree \<Rightarrow> None
      | Inl (SyntaxError l m s) \<Rightarrow>
          Some (''Syntax error at line '' @ str_int_option l @ '': '' @ m)
      | Inl e \<Rightarrow> Some (''Parse error: '' @ str_exn e))"

definition debug_path :: "int \<Rightarrow> string" where
  "debug_path attempt = ''/tmp/generated_code_attempt_'' @ str_int (attempt + 1) @ ''.py''"

text \<open>
  \<open>int(syntax_error.split('line ')[1].split(':')[0]) if 'line ' in syntax_error else 0\<close>:
  the conversion raises \<open>ValueError\<close> on a text that is not an integer.
\<close>

definition error_line_num :: "string \<Rightarrow> exn + int" where
  "error_line_num syntax_error =
     (if contains ''line '' syntax_error
      then
        (case py_split syntax_error ''line '' of
           a # b # rest \<Rightarrow>
             (case py_int (hd (py_split b '':'')) of
                None \<Rightarrow>
                  Inl (ValueError (''invalid literal for int() with base 10: ''
                         @ [CHR 0x27] @ hd (py_split b '':'') @ [CHR 0x27]))
              | Some i \<Rightarrow> Inr i)
         | _ \<Rightarrow> Inl (OtherException ''list index out of range''))
      else Inr 0)"

definition error_context :: "string \<Rightarrow> int \<Rightarrow> string" where
  "error_context code line_num =
     (let code_lines = py_split code NL;
          context_start = max 0 (line_num - 3);
          context_end = min (int (length code_lines)) (line_num + 2)
      in py_join NL
           (map (\<lambda>p. str_int (fst p + 1) @ '': '' @ snd p)
              (enumerate_from context_start (py_slice code_lines context_start context_end))))"

text \<open>
  The branch of an attempt whose code does not parse: the additional instructions of
  the next attempt, or the exception raised.
\<close>

definition retry_feedback :: "int \<Rightarrow> int \<Rightarrow> string \<Rightarrow> string \<Rightarrow> exn + string" where
  "retry_feedback max_retries attempt code syntax_error =
     (if attempt < max_retries - 1
      then
        (case error_line_num syntax_error of
           Inl e \<Rightarrow> Inl e
         | Inr n \<Rightarrow> Inr (syntax_feedback syntax_error (error_context code n)))
      else
        Inl (ValueError
               (''Code generation failed after '' @ str_int max_retries
                @ '' attempts. Last error: '' @ syntax_error
                @ ''. Debug code at: '' @ debug_path attempt)))"

text \<open>
  The body of the \<open>try\<close> block of one attempt: it raises (\<open>Inl\<close>), returns the result
  (\<open>Inr (Inl result)\<close>), or ends with new additional instructions (\<open>Inr (Inr text)\<close>).
\<close>

definition attempt_try ::
  "env \<Rightarrow> string \<Rightarrow> int \<Rightarrow> int \<Rightarrow> string \<Rightarrow> world \<Rightarrow> (exn + (generated + string)) \<times> world" where
  "attempt_try env yaml_specification max_retries attempt additional_instructions w =
     (case generate_agent_code env yaml_specification additional_instructions w of
        (Inl e, w1) \<Rightarrow> (Inl e, w1)
      | (Inr result, w1) \<Rightarrow>
          (case env_write env (debug_path attempt) (gen_code result) of
             Some e \<Rightarrow> (Inl e, w1)
           | None \<Rightarrow>
               (let w2 = w1\<lparr>files := files w1 @ [(debug_path attempt, gen_code result)]\<rparr>
                in (case check_syntax (env_parse env) (gen_code result) of
                      None \<Rightarrow> (Inr (Inl (result\<lparr>gen_retry_count := Some attempt\<rparr>)), w2)
                    | Some syntax_error \<Rightarrow>
                        (case retry_feedback max_retries attempt (gen_code result) syntax_error of
                           Inl e \<Rightarrow> (Inl e, w2)
                         | Inr text \<Rightarrow> (Inr (Inr text), w2))))))"

text \<open>
  One iteration with its handlers: \<open>ValueError\<close> is raised again; any other
  exception is raised as a \<open>RuntimeError\<close> on the last attempt and otherwise dropped,
  the loop going on with the additional instructions it had.
\<close>

datatype 'a step = Return 'a | Raise exn | Continue string

definition attempt_step ::
  "env \<Rightarrow> string \<Rightarrow> int \<Rightarrow> int \<Rightarrow> string \<Rightarrow> world \<Rightarrow> generated step \<times> world" where
  "attempt_step env yaml_specification max_retries attempt additional_instructions w =
     (case attempt_try env yaml_specification max_retries attempt additional_instructions w of
        (Inl (ValueError s), w1) \<Rightarrow> (Raise (ValueError s), w1)
      | (Inl e, w1) \<Rightarrow>
          (if max_retries - 1 \<le> attempt
           then (Raise (RuntimeError (''Code generation failed after '' @ str_int max_retries
                          @ '' attempts: '' @ str_exn e)), w1)
           else (Continue additional_instructions, w1))
      | (Inr (Inl result), w1) \<Rightarrow> (Return result, w1)
      | (Inr (Inr text), w1) \<Rightarrow> (Continue text, w1))"

text \<open>The \<open>for\<close> loop over the attempts that remain, and the statement after it.\<close>

fun retry_loop ::
  "env \<Rightarrow> string \<Rightarrow> int \<Rightarrow> int list \<Rightarrow> string \<Rightarrow> world \<Rightarrow> (exn + generated) \<times> world" where
  "retry_loop env yaml_specification max_retries [] additional_instructions w =
     (Inl (RuntimeError ''Code generation failed: Maximum retries reached''), w)"
| "retry_loop env yaml_specification max_retries (attempt # rest) additional_instructions w =
     (case attempt_step env yaml_specification max_retries attempt additional_instructions w of
        (Return result, w1) \<Rightarrow> (Inr result, w1)
      | (Raise e, w1) \<Rightarrow> (Inl e, w1)
      | (Continue text, w1) \<Rightarrow> retry_loop env yaml_specification max_retries rest text w1)"

definition generate_agent_code_with_retry ::
  "env \<Rightarrow> string \<Rightarrow> int \<Rightarrow> world \<Rightarrow> (exn + generated) \<times> world" where
  "generate_agent_code_with_retry env yaml_specification max_retries w =
     retry_loop env yaml_specification max_retries (py_range max_retries) [] w"

section \<open>script_generator.py\<close>









section \<open>Notions used in the statements\<close>

text \<open>Parsers for concrete runs: one that returns a given tree, one that raises.\<close>

definition parses_to :: "node \<Rightarrow> parser" where
  "parses_to tree code = Inr tree"

definition parse_raises :: "exn \<Rightarrow> parser" where
  "parse_raises e code = Inl e"

definition is_error :: "ValidationIssue \<Rightarrow> bool" where
  "is_error i = (severity i = ''ERROR'')"




definition credential_matches :: "string \<Rightarrow> (nat \<times> nat) list" where
  "credential_matches code =
     concat (map (\<lambda>p. case p of ((kw, cls, k), msg) \<Rightarrow> cred_finditer kw cls k 0 code)
       hardcoded_patterns)"






text \<open>A specification in which every tracked field has a non-empty value.\<close>

definition full_spec :: spec_document where
  "full_spec = map_of
     [(''agent_name'', YStr ''CalcAgent''),
      (''agent_type'', YStr ''calculation''),
      (''version'', YStr ''1.0.0''),
      (''description'', YStr ''Computes ratios''),
      (''role'', YStr ''primary_agent''),
      (''capabilities'', YList [YStr ''compute'']),
      (''workflow'', YDict [(''steps'', YDict [(''one'', YStr ''load'')])]),
      (''dependencies'', YDict [(''python_packages'', YList [YStr ''pydantic''])]),
      (''data_sources'', YList [YStr ''db'']),
      (''tools'', YList [YStr ''sql'']),
      (''performance'', YDict [(''timeout'', YInt 30)]),
      (''logging'', YDict [(''level'', YStr ''INFO'')]),
      (''testing'', YDict [(''test_scenarios'', YList [YStr ''basic''])])]"

definition tracked_fields :: "string list" where
  "tracked_fields = map fst REQUIRED_FIELDS @ map fst OPTIONAL_FIELDS"

text \<open>
  A text whose only line both assigns a password literal and assigns an empty string,
  and the tree of its two assignments.
\<close>

definition password_line :: string where
  "password_line =
     ''password = '' @ [CHR 0x22] @ ''abc'' @ [CHR 0x22] @ ''; y = '' @ [CHR 0x22, CHR 0x22]"

definition password_tree :: node where
  "password_tree =
     Module [OtherNode 1 [Name 1 ''password'', OtherNode 1 []],
             OtherNode 1 [Name 1 ''y'', OtherNode 1 []]]"

text \<open>
  A text ends where a line starts: it is empty or its last character is a newline.
\<close>

definition line_start :: "string \<Rightarrow> bool" where
  "line_start pre = (pre = [] \<or> (\<exists>p. pre = p @ [CHR 0x0A]))"

text \<open>
  Worlds and collaborators for concrete runs. Every one loads the specification as a
  dictionary and writes files without error.
\<close>

definition empty_world :: world where
  "empty_world = \<lparr>llm_calls = [], files = []\<rparr>"

text \<open>A generator whose first call fails and whose later calls return a valid program.\<close>

definition flaky_env :: env where
  "flaky_env =
     \<lparr>env_yaml_load = (\<lambda>s. Inr (YDict [(''agent_name'', YStr ''CalcAgent'')])),
      env_llm = (\<lambda>i system_prompt user_prompt.
         if i = 0 then Inl (RuntimeError ''LLM generation failed: timeout'')
         else Inr ''x = 1''),
      env_parse = (\<lambda>code. Inr (Module [OtherNode 1 [Name 1 ''x'', OtherNode 1 []]])),
      env_write = (\<lambda>path text. None)\<rparr>"

text \<open>
  A generator whose answer holds a null byte, for which \<open>ast.parse\<close> raises a
  \<open>SyntaxError\<close> whose \<open>lineno\<close> is \<open>None\<close>.
\<close>

definition null_byte_env :: env where
  "null_byte_env =
     \<lparr>env_yaml_load = (\<lambda>s. Inr (YDict [(''agent_name'', YStr ''CalcAgent'')])),
      env_llm = (\<lambda>i system_prompt user_prompt. Inr [CHR ''x'', CHR 0x00]),
      env_parse = (\<lambda>code. Inl (SyntaxError None
         ''source code string cannot contain null bytes''
         ''source code string cannot contain null bytes'')),
      env_write = (\<lambda>path text. None)\<rparr>"




text \<open>A generator that fails on every call.\<close>

definition down_env :: env where
  "down_env =
     \<lparr>env_yaml_load = (\<lambda>s. Inr (YDict [(''agent_name'', YStr ''CalcAgent'')])),
      env_llm = (\<lambda>i system_prompt user_prompt. Inl (RuntimeError ''LLM is not available'')),
      env_parse = (\<lambda>code. Inr (Module [])),
      env_write = (\<lambda>path text. None)\<rparr>"

text \<open>The world after one more call of the generator.\<close>

definition logged :: "string \<Rightarrow> string \<Rightarrow> world \<Rightarrow> world" where
  "logged s u w = w\<lparr>llm_calls := llm_calls w @ [(s, u)]\<rparr>"



text \<open>
  The error text of a syntax error at line \<open>l\<close> with message \<open>m\<close>, and the world after
  an attempt that called the generator and preserved its code.
\<close>

definition line_error :: "int \<Rightarrow> string \<Rightarrow> string" where
  "line_error l m = ''Syntax error at line '' @ str_int l @ '': '' @ m"

definition attempted :: "int \<Rightarrow> string \<Rightarrow> string \<Rightarrow> string \<Rightarrow> world \<Rightarrow> world" where
  "attempted attempt s u code w =
     w\<lparr>llm_calls := llm_calls w @ [(s, u)], files := files w @ [(debug_path attempt, code)]\<rparr>"


section \<open>Properties of the security validator\<close>

subsection \<open>Every check only adds findings and risk\<close>











subsection \<open>Denied calls\<close>







subsection \<open>Warnings alone\<close>


















subsection \<open>A denied import and nothing else\<close>

lemma no_matches_no_change:
  "credential_matches code = [] \<Longrightarrow> foldl (check_pattern code) st hardcoded_patterns = st"
  by (simp add: credential_matches_def hardcoded_patterns_def check_pattern_def)

lemma walk_single_import: "children stmt = [] \<Longrightarrow> walk (Module [stmt]) = [Module [stmt], stmt]"
  by (simp add: walk_def)

lemma run_checks_import:
  assumes "module_root name \<in> DANGEROUS_IMPORTS" and "credential_matches code = []"
  shows "run_checks (Module [Import l [name]]) code
     = \<lparr>sc_issues = [dangerous_import_issue (module_root name) l], sc_risk = 4 / 10,
        sc_imported = {module_root name}, sc_conditional = Map.empty\<rparr>"
  using assms
  by (simp add: run_checks_def walk_single_import initial_scan_def check_alias_def add_issue_def
      no_matches_no_change check_complexity_def Let_def)

lemma run_checks_import_from:
  assumes "module_root name \<in> DANGEROUS_IMPORTS" and "credential_matches code = []"
  shows "run_checks (Module [ImportFrom l (Some name)]) code
     = \<lparr>sc_issues = [dangerous_from_issue (module_root name) l], sc_risk = 4 / 10,
        sc_imported = {module_root name}, sc_conditional = Map.empty\<rparr>"
proof -
  from assms(1) have ne: "name \<noteq> []"
    by (auto simp: module_root_def py_split_def DANGEROUS_IMPORTS_def)
  with assms show ?thesis
  by (simp add: run_checks_def walk_single_import initial_scan_def add_issue_def
      no_matches_no_change check_complexity_def Let_def)
qed

text \<open>
  Claim C9. When the tree of the text is a single statement importing one denied
  module (\<open>import m\<close> or \<open>from m import ...\<close>) and the text holds no
  credential-shaped literal, the validator returns exactly one issue, of severity
  ERROR, a risk score of \<open>0.4\<close> and \<open>valid = False\<close>.
\<close>

theorem denied_import_only:
  assumes "ast_parse code = Inr (Module [stmt])"
    and "stmt = Import l [name] \<or> stmt = ImportFrom l (Some name)"
    and "module_root name \<in> DANGEROUS_IMPORTS"
    and "credential_matches code = []"
  shows "\<exists>r. validate_code_security ast_parse code = Inr r
           \<and> length (filter is_error (issues r)) = 1 \<and> length (issues r) = 1
           \<and> risk_score r = 4 / 10 \<and> \<not> valid r"
proof -
  from assms(2) show ?thesis
  proof
    assume "stmt = Import l [name]"
    with assms(1) run_checks_import [OF assms(3,4), of l] show ?thesis
      by (simp add: validate_code_security_def security_try_def verdict_def Let_def is_error_def
          dangerous_import_issue_def)
  next
    assume "stmt = ImportFrom l (Some name)"
    with assms(1) run_checks_import_from [OF assms(3,4), of l] show ?thesis
      by (simp add: validate_code_security_def security_try_def verdict_def Let_def is_error_def
          dangerous_from_issue_def)
  qed
qed

theorem denied_import_only_witness:
  "parses_to (Module [Import 1 [''subprocess'']]) ''import subprocess''
      = Inr (Module [Import 1 [''subprocess'']])
   \<and> module_root ''subprocess'' \<in> DANGEROUS_IMPORTS
   \<and> credential_matches ''import subprocess'' = []
   \<and> (\<exists>r. validate_code_security (parses_to (Module [Import 1 [''subprocess'']]))
              ''import subprocess'' = Inr r
           \<and> length (filter is_error (issues r)) = 1 \<and> length (issues r) = 1
           \<and> risk_score r = 4 / 10 \<and> \<not> valid r)"
proof -
  have a: "parses_to (Module [Import 1 [''subprocess'']]) ''import subprocess''
      = Inr (Module [Import 1 [''subprocess'']])"
    by (simp add: parses_to_def)
  have b: "Import 1 [''subprocess''] = Import 1 [''subprocess'']
      \<or> Import 1 [''subprocess''] = ImportFrom 1 (Some ''subprocess'')"
    by simp
  have c: "module_root ''subprocess'' \<in> DANGEROUS_IMPORTS"
    by code_simp
  have d: "credential_matches ''import subprocess'' = []"
    by code_simp
  from a c d denied_import_only [where ast_parse = "parses_to (Module [Import 1 [''subprocess'']])"
      and code = "''import subprocess''", OF a b c d]
  show ?thesis by blast
qed

subsection \<open>Failures of the parser\<close>

text \<open>
  Claim C4. When the parser raises on the text, the syntax validator returns an
  invalid result with exactly one issue, of severity ERROR and type syntax, and the
  combined validator returns that result having invoked the syntax validator only.
\<close>

theorem syntax_failure_short_circuit:
  assumes "ast_parse code = Inl e"
  shows "\<exists>r. validate_code_syntax ast_parse code = Inr r
           \<and> \<not> valid r
           \<and> map (\<lambda>i. (severity i, issue_type i)) (issues r) = [(''ERROR'', ''syntax'')]
           \<and> validate_code ast_parse code = ([SyntaxValidation code], Inr r)"
  using assms
  by (cases e) (simp_all add: validate_code_syntax_def validate_code_def)

theorem syntax_failure_short_circuit_witness:
  "parse_raises (SyntaxError (Some 1) ''invalid syntax'' ''invalid syntax (<unknown>, line 1)'')
      ''def f(:'' = Inl (SyntaxError (Some 1) ''invalid syntax'' ''invalid syntax (<unknown>, line 1)'')
   \<and> (\<exists>r. validate_code_syntax
             (parse_raises (SyntaxError (Some 1) ''invalid syntax'' ''invalid syntax (<unknown>, line 1)''))
             ''def f(:'' = Inr r
           \<and> \<not> valid r
           \<and> map (\<lambda>i. (severity i, issue_type i)) (issues r) = [(''ERROR'', ''syntax'')]
           \<and> validate_code
                (parse_raises (SyntaxError (Some 1) ''invalid syntax'' ''invalid syntax (<unknown>, line 1)''))
                ''def f(:'' = ([SyntaxValidation ''def f(:''], Inr r))"
proof -
  let ?e = "SyntaxError (Some 1) ''invalid syntax'' ''invalid syntax (<unknown>, line 1)''"
  have a: "parse_raises ?e ''def f(:'' = Inl ?e"
    by (simp add: parse_raises_def)
  from a syntax_failure_short_circuit [where ast_parse = "parse_raises ?e"
      and code = "''def f(:''", OF a]
  show ?thesis by blast
qed

text \<open>
  Claim C10. The security validator returns a result for every text and every
  behaviour of the parser; when the parser raises, the result is invalid, has
  exactly one issue, of severity ERROR, and a risk score of \<open>1.0\<close>.
\<close>

theorem validate_code_security_total:
  "\<exists>r. validate_code_security ast_parse code = Inr r
       \<and> (\<forall>e. ast_parse code = Inl e \<longrightarrow>
            \<not> valid r \<and> map severity (issues r) = [''ERROR''] \<and> risk_score r = 1)"
  by (cases "ast_parse code")
     (simp_all add: validate_code_security_def security_try_def security_failed_def)

theorem validate_code_security_total_witness:
  "\<exists>r. validate_code_security (parse_raises (ValueError ''source code string cannot contain null bytes'')) [CHR 0x00] = Inr r
       \<and> parse_raises (ValueError ''source code string cannot contain null bytes'') [CHR 0x00]
            = Inl (ValueError ''source code string cannot contain null bytes'')
       \<and> \<not> valid r \<and> map severity (issues r) = [''ERROR''] \<and> risk_score r = 1"
proof -
  let ?e = "ValueError ''source code string cannot contain null bytes''"
  have a: "parse_raises ?e [CHR 0x00] = Inl ?e"
    by (simp add: parse_raises_def)
  from a validate_code_security_total [of "parse_raises ?e" "[CHR 0x00]"] show ?thesis by blast
qed


section \<open>Properties of the credential scan\<close>

subsection \<open>The line of a match\<close>

lemma takeWhile_all: "c \<notin> set xs \<Longrightarrow> takeWhile (\<lambda>x. x \<noteq> c) xs = xs"
  by (induction xs) auto

lemma py_rfind_line:
  assumes "CHR 0x0A \<notin> set line" and "line_start pre" and "i \<le> length line"
  shows "py_rfind (pre @ line @ rest) CHR 0x0A (length pre + i) + 1 = int (length pre)"
proof -
  have tk: "take (length pre + i) (pre @ line @ rest) = pre @ take i line"
    using assms(3) by simp
  have notin: "CHR 0x0A \<notin> set (take i line)"
    using assms(1) by (meson in_set_takeD)
  from assms(2) consider "pre = []" | p where "pre = p @ [CHR 0x0A]"
    unfolding line_start_def by blast
  then show ?thesis
  proof cases
    case 1
    have "py_rfind (pre @ line @ rest) CHR 0x0A (length pre + i) = - 1"
      unfolding py_rfind_def Let_def tk using notin 1 by simp
    then show ?thesis using 1 by simp
  next
    case 2
    have tw: "takeWhile (\<lambda>x. x \<noteq> CHR 0x0A) (rev (pre @ take i line)) = rev (take i line)"
      using notin by (simp add: 2 takeWhile_tail takeWhile_all)
    have "py_rfind (pre @ line @ rest) CHR 0x0A (length pre + i)
            = int (length (pre @ take i line) - 1 - length (rev (take i line)))"
      unfolding py_rfind_def Let_def tk tw using 2 by simp
    then show ?thesis using 2 assms(3) by simp
  qed
qed

lemma py_find_terminated:
  assumes "CHR 0x0A \<notin> set line" and "j \<le> length line"
  shows "py_find (pre @ line @ CHR 0x0A # post) CHR 0x0A (length pre + j)
           = int (length pre + length line)"
proof -
  have dr: "drop (length pre + j) (pre @ line @ CHR 0x0A # post) = drop j line @ CHR 0x0A # post"
    using assms(2) by simp
  have notin: "CHR 0x0A \<notin> set (drop j line)"
    using assms(1) by (meson in_set_dropD)
  have tw: "takeWhile (\<lambda>x. x \<noteq> CHR 0x0A) (drop j line @ CHR 0x0A # post) = drop j line"
    using notin by (auto simp: takeWhile_tail)
  show ?thesis
    unfolding py_find_def Let_def dr tw using assms(2) by simp
qed

lemma py_find_last:
  assumes "CHR 0x0A \<notin> set line" and "j \<le> length line"
  shows "py_find (pre @ line) CHR 0x0A (length pre + j) = - 1"
proof -
  have dr: "drop (length pre + j) (pre @ line) = drop j line"
    using assms(2) by simp
  have notin: "CHR 0x0A \<notin> set (drop j line)"
    using assms(1) by (meson in_set_dropD)
  show ?thesis
    unfolding py_find_def Let_def dr using notin by simp
qed

text \<open>
  A match inside a line that a newline ends: \<open>matched_line\<close> is that line. A match
  inside the last line of a text that no newline ends: \<open>code.find\<close> returns \<open>-1\<close>, which
  the slice reads as the index of the last character, and \<open>matched_line\<close> is the line
  without its last character.
\<close>

lemma matched_line_terminated:
  assumes "CHR 0x0A \<notin> set line" and "line_start pre" and "i \<le> j" and "j \<le> length line"
  shows "matched_line (pre @ line @ CHR 0x0A # post) (length pre + i, length pre + j) = line"
proof -
  have r: "py_rfind (pre @ line @ CHR 0x0A # post) CHR 0x0A (length pre + i) + 1 = int (length pre)"
    using py_rfind_line [OF assms(1) assms(2), of i "CHR 0x0A # post"] assms(3) assms(4) by simp
  show ?thesis
    unfolding matched_line_def fst_conv snd_conv r py_find_terminated [OF assms(1) assms(4)]
    by (simp add: py_slice_def slice_bound_def Let_def)
qed

lemma matched_line_last:
  assumes "CHR 0x0A \<notin> set line" and "line_start pre" and "i \<le> j" and "j \<le> length line"
  shows "matched_line (pre @ line) (length pre + i, length pre + j) = butlast line"
proof -
  have r: "py_rfind (pre @ line) CHR 0x0A (length pre + i) + 1 = int (length pre)"
    using py_rfind_line [OF assms(1) assms(2), of i "[]"] assms(3) assms(4) by simp
  have n: "nat (max (int (length pre) + int (length line) - 1) 0) - length pre = length line - 1"
    by arith
  show ?thesis
    unfolding matched_line_def fst_conv snd_conv r py_find_last [OF assms(1) assms(4)]
    using n by (simp add: py_slice_def slice_bound_def Let_def butlast_conv_take)
qed

text \<open>
  Hence a match on a line that a newline ends and that a safe pattern accepts adds no
  issue and no risk, whatever the pattern of the match.
\<close>

lemma safe_line_not_flagged:
  assumes "CHR 0x0A \<notin> set line" and "line_start pre" and "i \<le> j" and "j \<le> length line"
    and "list_ex (\<lambda>safe_pattern. safe_pattern line) safe_patterns"
  shows "check_match (pre @ line @ CHR 0x0A # post) msg st (length pre + i, length pre + j) = st"
  unfolding check_match_def matched_line_terminated [OF assms(1-4)] Let_def
  using assms(5) by simp

text \<open>
  On the last line of a text that no newline ends, the safe patterns are tried on the
  line without its last character.
\<close>

lemma last_line_truncated:
  assumes "CHR 0x0A \<notin> set line" and "line_start pre" and "i \<le> j" and "j \<le> length line"
  shows "check_match (pre @ line) msg st (length pre + i, length pre + j)
           = (if list_ex (\<lambda>safe_pattern. safe_pattern (butlast line)) safe_patterns then st
              else add_issue
                     (hardcoded_issue msg
                        (int (py_count (take (length pre + i) (pre @ line)) CHR 0x0A) + 1))
                     (3 / 10) st)"
  unfolding check_match_def matched_line_last [OF assms] Let_def fst_conv
  by simp

subsection \<open>A safe line that is flagged\<close>

text \<open>
  Claim C8, at an input where the code departs from it. The only line of
  \<open>password_line\<close> assigns a password literal and assigns an empty string, so a safe
  pattern applies to it. No newline follows the match, \<open>code.find\<close> returns \<open>-1\<close> and
  the slice drops the last character of the text: the safe pattern no longer applies
  and the error is emitted. With a newline at the end of the text it is not.
\<close>

theorem password_line_flagged:
  "list_ex (\<lambda>safe_pattern. safe_pattern password_line) safe_patterns
   \<and> validate_code_security (parses_to password_tree) password_line
       = Inr \<lparr>valid = False, issues = [hardcoded_issue ''Hardcoded password'' 1],
              risk_score = 3 / 10\<rparr>
   \<and> validate_code_security (parses_to password_tree) (password_line @ [CHR 0x0A])
       = Inr \<lparr>valid = True, issues = [], risk_score = 0\<rparr>"
  by code_simp

section \<open>Properties of the completeness score\<close>

text \<open>
  Claim C5 as stated fails: the score is a percentage, and a specification with every
  tracked field scores \<open>100\<close>, which is not in the interval from 0 to 1.
\<close>

theorem full_spec_scores_100:
  "calculate_completeness full_spec = 100 \<and> \<not> calculate_completeness full_spec \<le> 1"
  by (simp add: calculate_completeness_def REQUIRED_FIELDS_def OPTIONAL_FIELDS_def present_def
      full_spec_def)

lemma filter_all_iff: "length (filter P xs) = length xs \<longleftrightarrow> list_all P xs"
proof (induction xs)
  case Nil show ?case by simp
next
  case (Cons a xs)
  have "length (filter P xs) \<le> length xs" by simp
  then have "length (filter P xs) \<noteq> Suc (length xs)" by arith
  with Cons show ?case by auto
qed

lemma tracked_count:
  "length (filter (present spec) (map fst REQUIRED_FIELDS))
     + length (filter (present spec) (map fst OPTIONAL_FIELDS))
   = length (filter (present spec) tracked_fields)"
  by (simp add: tracked_fields_def)

lemma tracked_length: "length tracked_fields = 13"
  by (simp add: tracked_fields_def REQUIRED_FIELDS_def OPTIONAL_FIELDS_def)

lemma completeness_eq:
  "calculate_completeness spec
     = of_nat (length (filter (present spec) tracked_fields)) / 13 * 100"
proof -
  have "length REQUIRED_FIELDS + length OPTIONAL_FIELDS = 13"
    by (simp add: REQUIRED_FIELDS_def OPTIONAL_FIELDS_def)
  then show ?thesis
    unfolding calculate_completeness_def Let_def tracked_count by simp
qed

text \<open>
  Claim C5, amended. For every parsed specification the completeness score lies
  between 0 and 100, it is accepted by the validator of the result field, and it
  equals 100 exactly when each of the thirteen tracked fields is present with a
  value that Python counts as true.
\<close>

theorem completeness_percentage:
  "0 \<le> calculate_completeness spec \<and> calculate_completeness spec \<le> 100
   \<and> (calculate_completeness spec = 100 \<longleftrightarrow> list_all (present spec) tracked_fields)
   \<and> validate_score (calculate_completeness spec) = Inr (calculate_completeness spec)"
proof -
  let ?p = "length (filter (present spec) tracked_fields)"
  have le: "?p \<le> 13" using length_filter_le [of "present spec" tracked_fields]
    by (simp add: tracked_length)
  have eq: "calculate_completeness spec = of_nat ?p / 13 * 100" by (rule completeness_eq)
  have a: "0 \<le> calculate_completeness spec" unfolding eq by simp
  have "(of_nat ?p :: rat) \<le> 13" using le by (metis of_nat_le_iff of_nat_numeral)
  then have b: "calculate_completeness spec \<le> 100" unfolding eq by simp
  have "calculate_completeness spec = 100 \<longleftrightarrow> (of_nat ?p :: rat) = 13" unfolding eq by simp
  also have "\<dots> \<longleftrightarrow> ?p = 13" by (metis of_nat_eq_iff of_nat_numeral)
  also have "\<dots> \<longleftrightarrow> list_all (present spec) tracked_fields"
    using filter_all_iff [of "present spec" tracked_fields] by (simp add: tracked_length)
  finally have c: "calculate_completeness spec = 100 \<longleftrightarrow> list_all (present spec) tracked_fields" .
  from a b have d: "validate_score (calculate_completeness spec) = Inr (calculate_completeness spec)"
    by (simp add: validate_score_def)
  from a b c d show ?thesis by blast
qed

section \<open>Properties of the retry loops\<close>

subsection \<open>Failures of the generator\<close>

lemma generate_agent_code_failure:
  assumes "load_spec env yaml_specification = Inr names"
    and "env_llm env (length (llm_calls w)) agent_system_prompt
           (agent_user_prompt yaml_specification additional_instructions) = Inl e"
  shows "generate_agent_code env yaml_specification additional_instructions w
     = (Inl (RuntimeError (''Code generation failed: '' @ str_exn e
               @ ''. This indicates an issue with LLM response.'')),
        logged agent_system_prompt (agent_user_prompt yaml_specification additional_instructions) w)"
  using assms by (simp add: generate_agent_code_def call_llm_def logged_def)

lemma attempt_step_failure:
  assumes "load_spec env yaml_specification = Inr names"
    and "env_llm env (length (llm_calls w)) agent_system_prompt
           (agent_user_prompt yaml_specification additional_instructions) = Inl e"
  shows "attempt_step env yaml_specification max_retries attempt additional_instructions w
     = (if max_retries - 1 \<le> attempt
        then Raise (RuntimeError (''Code generation failed after '' @ str_int max_retries
               @ '' attempts: Code generation failed: '' @ str_exn e
               @ ''. This indicates an issue with LLM response.''))
        else Continue additional_instructions,
        logged agent_system_prompt (agent_user_prompt yaml_specification additional_instructions) w)"
  using generate_agent_code_failure [OF assms]
  by (simp add: attempt_step_def attempt_try_def)

lemma retry_loop_all_fail:
  assumes load: "load_spec env yaml_specification = Inr names"
    and "k < m" and "m = nat max_retries"
    and "\<forall>i. i < m - k \<longrightarrow>
           env_llm env (length (llm_calls w) + i) agent_system_prompt
             (agent_user_prompt yaml_specification ai) = Inl (e (k + i))"
  shows "retry_loop env yaml_specification max_retries (map int [k ..< m]) ai w
     = (Inl (RuntimeError (''Code generation failed after '' @ str_int max_retries
               @ '' attempts: Code generation failed: '' @ str_exn (e (m - 1))
               @ ''. This indicates an issue with LLM response.'')),
        w\<lparr>llm_calls := llm_calls w
             @ replicate (m - k) (agent_system_prompt, agent_user_prompt yaml_specification ai)\<rparr>)"
  using assms(2,4)
proof (induction "m - k" arbitrary: k w)
  case 0
  then show ?case by simp
next
  case (Suc d)
  let ?u = "agent_user_prompt yaml_specification ai"
  let ?w1 = "logged agent_system_prompt ?u w"
  from Suc.prems(1) have upt: "[k ..< m] = k # [Suc k ..< m]" by (simp add: upt_conv_Cons)
  from Suc.prems(2) Suc.hyps(2) have f0: "env_llm env (length (llm_calls w)) agent_system_prompt ?u = Inl (e k)"
    by (metis add.right_neutral zero_less_Suc)
  note step = attempt_step_failure [OF load f0, of max_retries "int k"]
  show ?case
  proof (cases "Suc k = m")
    case True
    with assms(3) have last: "max_retries - 1 \<le> int k" by linarith
    from True have d: "m - k = 1" "m - 1 = k" by auto
    show ?thesis
      unfolding upt using step last d by (simp add: logged_def True)
  next
    case False
    with Suc.prems(1) have lt: "Suc k < m" by simp
    with assms(3) have notlast: "\<not> max_retries - 1 \<le> int k" by linarith
    have dd: "d = m - Suc k" using Suc.hyps(2) by simp
    have fails: "\<forall>i. i < m - Suc k \<longrightarrow>
           env_llm env (length (llm_calls ?w1) + i) agent_system_prompt ?u = Inl (e (Suc k + i))"
    proof (intro allI impI)
      fix i assume "i < m - Suc k"
      then have "Suc i < m - k" by simp
      with Suc.prems(2) have "env_llm env (length (llm_calls w) + Suc i) agent_system_prompt ?u
          = Inl (e (k + Suc i))" by blast
      then show "env_llm env (length (llm_calls ?w1) + i) agent_system_prompt ?u = Inl (e (Suc k + i))"
        by (simp add: logged_def)
    qed
    have rep: "m - k = Suc (m - Suc k)" using lt by simp
    from Suc.hyps(1) [OF dd lt fails]
    show ?thesis
      unfolding upt using step notlast
      by (simp add: logged_def rep replicate_append_same [symmetric] del: replicate_Suc)
         (simp add: replicate_app_Cons_same)
  qed
qed

lemma py_range_2: "py_range 2 = [0, 1]"
  by code_simp
lemma py_range_3: "py_range 3 = [0, 1, 2]"
  by code_simp
lemma strip_fences_valid: "strip_fences ''x = 1'' = ''x = 1''"
  by code_simp

lemma load_spec_flaky:
  "load_spec flaky_env s = Inr (YStr ''CalcAgent'', YStr ''unknown'', YStr ''MEDIUM'')"
  by (simp add: load_spec_def flaky_env_def dict_get_def)

text \<open>
  Claim C1 as stated fails: the first call of the generator fails, the loop makes a
  second attempt, and the run returns a result with \<open>retry_count = 1\<close> after two calls.
\<close>

theorem failed_generation_is_retried:
  "env_llm flaky_env 0 agent_system_prompt (agent_user_prompt ''agent_name: CalcAgent'' [])
     = Inl (RuntimeError ''LLM generation failed: timeout'')
   \<and> fst (generate_agent_code_with_retry flaky_env ''agent_name: CalcAgent'' 2 empty_world)
     = Inr \<lparr>gen_code = ''x = 1'',
           gen_metadata = make_metadata ''x = 1'' (YStr ''CalcAgent'', YStr ''unknown'', YStr ''MEDIUM''),
           gen_retry_count = Some 1\<rparr>
   \<and> length (llm_calls (snd (generate_agent_code_with_retry flaky_env ''agent_name: CalcAgent'' 2
         empty_world))) = 2"
proof -
  have llm0: "env_llm flaky_env 0 s u = Inl (RuntimeError ''LLM generation failed: timeout'')" for s u
    by (simp add: flaky_env_def)
  have llm1: "env_llm flaky_env (Suc 0) s u = Inr ''x = 1''" for s u
    by (simp add: flaky_env_def)
  have parse: "check_syntax (env_parse flaky_env) c = None" for c
    by (simp add: check_syntax_def flaky_env_def)
  have wr: "env_write flaky_env p c = None" for p c
    by (simp add: flaky_env_def)
  show ?thesis
    by (simp add: llm0 llm1 parse wr generate_agent_code_with_retry_def py_range_2
        attempt_step_def attempt_try_def generate_agent_code_def load_spec_flaky call_llm_def
        empty_world_def strip_fences_valid Let_def)
qed

text \<open>
  Claim C1, amended. A failure of the generator is wrapped in a \<open>RuntimeError\<close> and
  uses up one attempt. When the specification loads and the generator fails on each
  of the \<open>max_retries\<close> attempts (at least one), it is called \<open>max_retries\<close> times with the
  same prompts, and the run ends with the \<open>RuntimeError\<close> of the last attempt, which
  wraps the last failure.
\<close>

theorem generation_failures_consume_attempts:
  assumes "load_spec env yaml_specification = Inr names"
    and "1 \<le> max_retries"
    and "\<forall>i. i < nat max_retries \<longrightarrow>
           env_llm env (length (llm_calls w) + i) agent_system_prompt
             (agent_user_prompt yaml_specification []) = Inl (e i)"
  shows "generate_agent_code_with_retry env yaml_specification max_retries w
     = (Inl (RuntimeError (''Code generation failed after '' @ str_int max_retries
               @ '' attempts: Code generation failed: '' @ str_exn (e (nat max_retries - 1))
               @ ''. This indicates an issue with LLM response.'')),
        w\<lparr>llm_calls := llm_calls w
             @ replicate (nat max_retries)
                 (agent_system_prompt, agent_user_prompt yaml_specification [])\<rparr>)"
proof -
  from assms(2) have pos: "0 < nat max_retries" by simp
  from assms(3) have "\<forall>i. i < nat max_retries - 0 \<longrightarrow>
           env_llm env (length (llm_calls w) + i) agent_system_prompt
             (agent_user_prompt yaml_specification []) = Inl (e (0 + i))" by simp
  from retry_loop_all_fail [OF assms(1) pos refl this]
  show ?thesis by (simp add: generate_agent_code_with_retry_def py_range_def)
qed

theorem generation_failures_consume_attempts_witness:
  "load_spec down_env ''agent_name: CalcAgent''
     = Inr (YStr ''CalcAgent'', YStr ''unknown'', YStr ''MEDIUM'')
   \<and> (1 :: int) \<le> 2
   \<and> env_llm down_env (length (llm_calls empty_world) + 0) agent_system_prompt
         (agent_user_prompt ''agent_name: CalcAgent'' [])
       = Inl (RuntimeError ''LLM is not available'')
   \<and> env_llm down_env (length (llm_calls empty_world) + 1) agent_system_prompt
         (agent_user_prompt ''agent_name: CalcAgent'' [])
       = Inl (RuntimeError ''LLM is not available'')
   \<and> generate_agent_code_with_retry down_env ''agent_name: CalcAgent'' 2 empty_world
     = (Inl (RuntimeError (''Code generation failed after '' @ str_int 2
               @ '' attempts: Code generation failed: ''
               @ str_exn (RuntimeError ''LLM is not available'')
               @ ''. This indicates an issue with LLM response.'')),
        empty_world\<lparr>llm_calls := llm_calls empty_world
             @ replicate (nat 2)
                 (agent_system_prompt, agent_user_prompt ''agent_name: CalcAgent'' [])\<rparr>)"
proof -
  have a: "load_spec down_env ''agent_name: CalcAgent''
     = Inr (YStr ''CalcAgent'', YStr ''unknown'', YStr ''MEDIUM'')"
    by (simp add: load_spec_def down_env_def dict_get_def)
  have b: "(1 :: int) \<le> 2" by simp
  have c: "\<forall>i. i < nat 2 \<longrightarrow>
          env_llm down_env (length (llm_calls empty_world) + i) agent_system_prompt
            (agent_user_prompt ''agent_name: CalcAgent'' [])
          = Inl (RuntimeError ''LLM is not available'')"
    by (simp add: down_env_def)
  have d: "env_llm down_env i s u = Inl (RuntimeError ''LLM is not available'')" for i s u
    by (simp add: down_env_def)
  from a b d generation_failures_consume_attempts
      [where e = "\<lambda>i. RuntimeError ''LLM is not available''", OF a b c]
  show ?thesis by blast
qed

subsection \<open>Attempts whose code does not parse\<close>

text \<open>
  The text of an integer converts back to the integer, and the line number of a
  syntax error is read back from the error text.
\<close>

lemma is_digit_digit_char: "d < 10 \<Longrightarrow> is_digit (digit_char d)"
  by (simp add: is_digit_def digit_char_def Let_def)

lemma digit_char_value: "d < 10 \<Longrightarrow> int (of_char (digit_char d)) - 48 = int d"
  by (simp add: digit_char_def)

lemma str_nat_digits: "list_all is_digit (str_nat n) \<and> str_nat n \<noteq> []"
proof (induction n rule: str_nat.induct)
  case (1 n)
  show ?case
  proof (cases "n < 10")
    case True
    then show ?thesis by (subst str_nat.simps, subst str_nat.simps) (simp add: is_digit_digit_char)
  next
    case False
    with 1 have "list_all is_digit (str_nat (n div 10))" by simp
    with False show ?thesis
      by (subst str_nat.simps, subst (2) str_nat.simps) (simp add: is_digit_digit_char)
  qed
qed

lemma digits_value_snoc:
  "is_digit c \<Longrightarrow> digits_value (s @ [c]) = 10 * digits_value s + (int (of_char c) - 48)"
  by (simp add: digits_value_def)

lemma digits_value_str_nat: "digits_value (str_nat n) = int n"
proof (induction n rule: str_nat.induct)
  case (1 n)
  show ?case
  proof (cases "n < 10")
    case True
    then show ?thesis
      by (subst str_nat.simps) (simp add: digits_value_def is_digit_digit_char digit_char_value)
  next
    case False
    with 1 have ih: "digits_value (str_nat (n div 10)) = int (n div 10)" by simp
    have d: "n mod 10 < 10" by simp
    from False have "str_nat n = str_nat (n div 10) @ [digit_char (n mod 10)]"
      by (subst str_nat.simps) simp
    then show ?thesis
      using ih digits_value_snoc [OF is_digit_digit_char [OF d]] digit_char_value [OF d]
      by (simp add: zdiv_int zmod_int)
  qed
qed

lemma after_digit_digits: "list_all is_digit s \<Longrightarrow> after_digit s"
  by (induction s rule: after_digit.induct) auto

lemma int_literal_digits: "list_all is_digit s \<Longrightarrow> s \<noteq> [] \<Longrightarrow> int_literal s"
  by (cases s) (auto simp: after_digit_digits)

lemma digit_not_space: "is_digit c \<Longrightarrow> \<not> is_int_space c"
  by (auto simp: is_digit_def is_int_space_def Let_def)

lemma strip_digits:
  assumes "list_all is_digit s" and "s \<noteq> []" and that: "p = [] \<or> p = ''-''"
  shows "rev (dropWhile is_int_space (rev (dropWhile is_int_space (p @ s)))) = p @ s"
proof -
  from assms obtain c r where s: "s = r @ [c]" "is_digit c"
    by (cases s rule: rev_cases) auto
  from assms obtain c0 r0 where s0: "s = c0 # r0" "is_digit c0" by (cases s) auto
  have minus: "\<not> is_int_space CHR ''-''" by (simp add: is_int_space_def)
  from that have first: "dropWhile is_int_space (p @ s) = p @ s"
  proof
    assume "p = []"
    with s0 show ?thesis by (simp add: digit_not_space)
  next
    assume "p = ''-''"
    with minus show ?thesis by simp
  qed
  have "dropWhile is_int_space (rev (p @ s)) = rev (p @ s)"
    using s by (simp add: digit_not_space)
  with first show ?thesis by simp
qed

lemma py_int_str_int: "py_int (str_int l) = Some l"
proof (cases "l < 0")
  case True
  let ?s = "str_nat (nat (- l))"
  from str_nat_digits [of "nat (- l)"] have d: "list_all is_digit ?s" "?s \<noteq> []" by auto
  have "rev (dropWhile is_int_space (rev (dropWhile is_int_space (''-'' @ ?s)))) = ''-'' @ ?s"
    using strip_digits [OF d, of "''-''"] by simp
  moreover have "int_literal ?s" using d by (rule int_literal_digits)
  ultimately show ?thesis
    using True by (simp add: py_int_def str_int_def digits_value_str_nat)
next
  case False
  let ?s = "str_nat (nat l)"
  from str_nat_digits [of "nat l"] have d: "list_all is_digit ?s" "?s \<noteq> []" by auto
  then obtain c r where s: "?s = c # r" "is_digit c" by (cases ?s) auto
  then have c: "c \<noteq> CHR ''-''" "c \<noteq> CHR ''+''" by (auto simp: is_digit_def)
  have "rev (dropWhile is_int_space (rev (dropWhile is_int_space ([] @ ?s)))) = [] @ ?s"
    using strip_digits [OF d, of "[]"] by simp
  then have strip: "rev (dropWhile is_int_space (rev (dropWhile is_int_space ?s))) = c # r"
    using s by simp
  have lit: "int_literal (c # r)" using d s int_literal_digits by metis
  have val: "digits_value (c # r) = l" using digits_value_str_nat [of "nat l"] s False by simp
  show ?thesis
    using False lit by (simp add: py_int_def str_int_def strip c val)
qed

lemma split_acc_skip:
  assumes "\<forall>c \<in> set ds. c \<noteq> hd sep" and "sep \<noteq> []"
  shows "split_acc sep acc (ds @ t) = split_acc sep (rev ds @ acc) t"
  using assms(1)
proof (induction ds arbitrary: acc)
  case Nil
  show ?case by simp
next
  case (Cons d ds)
  from Cons.prems have "d \<noteq> hd sep" by simp
  with assms(2) have "\<not> startswith (d # ds @ t) sep"
    by (cases sep) (auto simp: startswith_def)
  with Cons show ?case by simp
qed

lemma split_acc_head: "\<exists>u rest. split_acc sep acc t = (rev acc @ u) # rest"
proof (induction t arbitrary: acc)
  case Nil
  show ?case by simp
next
  case (Cons c cs)
  show ?case
  proof (cases "startswith (c # cs) sep")
    case True
    then show ?thesis by simp
  next
    case False
    from Cons [of "c # acc"] obtain u rest
      where "split_acc sep (c # acc) cs = (rev (c # acc) @ u) # rest" by blast
    with False show ?thesis by simp
  qed
qed

lemma split_colon_head:
  assumes "CHR '':'' \<notin> set ds"
  shows "hd (split_acc '':'' acc (ds @ CHR '':'' # u)) = rev acc @ ds"
  using assms
proof (induction ds arbitrary: acc)
  case Nil
  show ?case by (simp add: startswith_def)
next
  case (Cons d ds)
  then have "d \<noteq> CHR '':''" by auto
  with Cons show ?case by (simp add: startswith_def)
qed

lemma str_int_chars: "c \<in> set (str_int l) \<Longrightarrow> is_digit c \<or> c = CHR ''-''"
  using str_nat_digits by (auto simp: str_int_def list_all_iff split: if_splits)

lemma str_int_no_l: "\<forall>c \<in> set (str_int l). c \<noteq> hd ''line ''"
proof
  fix c assume "c \<in> set (str_int l)"
  then have "is_digit c \<or> c = CHR ''-''" by (rule str_int_chars)
  moreover have "\<not> is_digit CHR ''l''" by (simp add: is_digit_def)
  ultimately show "c \<noteq> hd ''line ''" by auto
qed

lemma str_int_no_colon: "CHR '':'' \<notin> set (str_int l)"
proof
  assume "CHR '':'' \<in> set (str_int l)"
  then have "is_digit CHR '':'' \<or> CHR '':'' = CHR ''-''" by (rule str_int_chars)
  then show False by (simp add: is_digit_def)
qed

lemma line_error_contains: "contains ''line '' (''Syntax error at line '' @ rest)"
  by (simp add: startswith_def)

lemma line_error_split:
  "\<exists>u rest'. py_split (''Syntax error at line '' @ str_int l @ '': '' @ m) ''line ''
     = ''Syntax error at '' # (str_int l @ CHR '':'' # u) # rest'"
proof -
  have a: "py_split (''Syntax error at line '' @ str_int l @ '': '' @ m) ''line ''
      = ''Syntax error at '' # split_acc ''line '' [] (str_int l @ '': '' @ m)"
    by (simp add: py_split_def startswith_def)
  have "split_acc ''line '' [] (str_int l @ '': '' @ m)
      = split_acc ''line '' (rev (str_int l) @ []) ('': '' @ m)"
    by (rule split_acc_skip [OF str_int_no_l]) simp
  also have "\<dots> = split_acc ''line '' (CHR '':'' # rev (str_int l)) ('' '' @ m)"
    by (simp add: startswith_def)
  finally have b: "split_acc ''line '' [] (str_int l @ '': '' @ m)
      = split_acc ''line '' (CHR '':'' # rev (str_int l)) ('' '' @ m)" .
  from split_acc_head [of "''line ''" "CHR '':'' # rev (str_int l)" "'' '' @ m"]
  obtain u rest' where "split_acc ''line '' (CHR '':'' # rev (str_int l)) ('' '' @ m)
      = (rev (CHR '':'' # rev (str_int l)) @ u) # rest'" by blast
  with a b show ?thesis by simp
qed

lemma error_line_num_syntax_error:
  "error_line_num (''Syntax error at line '' @ str_int l @ '': '' @ m) = Inr l"
proof -
  from line_error_split [of l m] obtain u rest'
    where sp: "py_split (''Syntax error at line '' @ str_int l @ '': '' @ m) ''line ''
      = ''Syntax error at '' # (str_int l @ CHR '':'' # u) # rest'" by blast
  have "hd (py_split (str_int l @ CHR '':'' # u) '':'') = str_int l"
    using split_colon_head [OF str_int_no_colon, of "[]" l u] by (simp add: py_split_def)
  then show ?thesis
    unfolding error_line_num_def using line_error_contains [of "str_int l @ '': '' @ m"] sp
    by (simp add: py_int_str_int del: contains.simps)
qed

lemma attempt_step_syntax_error:
  assumes "load_spec env yaml_specification = Inr names"
    and "env_llm env (length (llm_calls w)) agent_system_prompt
           (agent_user_prompt yaml_specification ai) = Inr t"
    and "env_write env (debug_path attempt) (strip_fences t) = None"
    and "env_parse env (strip_fences t) = Inl (SyntaxError (Some l) m s)"
  shows "attempt_step env yaml_specification max_retries attempt ai w
     = (if attempt < max_retries - 1
        then Continue (syntax_feedback (line_error l m) (error_context (strip_fences t) l))
        else Raise (ValueError (''Code generation failed after '' @ str_int max_retries
               @ '' attempts. Last error: '' @ line_error l m
               @ ''. Debug code at: '' @ debug_path attempt)),
        attempted attempt agent_system_prompt (agent_user_prompt yaml_specification ai)
          (strip_fences t) w)"
proof -
  have gen: "generate_agent_code env yaml_specification ai w
      = (Inr \<lparr>gen_code = strip_fences t, gen_metadata = make_metadata (strip_fences t) names,
               gen_retry_count = None\<rparr>,
         w\<lparr>llm_calls := llm_calls w
              @ [(agent_system_prompt, agent_user_prompt yaml_specification ai)]\<rparr>)"
    using assms(1,2) by (simp add: generate_agent_code_def call_llm_def Let_def)
  have chk: "check_syntax (env_parse env) (strip_fences t) = Some (line_error l m)"
    using assms(4) by (simp add: check_syntax_def line_error_def str_int_option_def)
  have fb: "retry_feedback max_retries attempt (strip_fences t) (line_error l m)
      = (if attempt < max_retries - 1
         then Inr (syntax_feedback (line_error l m) (error_context (strip_fences t) l))
         else Inl (ValueError (''Code generation failed after '' @ str_int max_retries
               @ '' attempts. Last error: '' @ line_error l m
               @ ''. Debug code at: '' @ debug_path attempt)))"
    using error_line_num_syntax_error [of l m]
    by (simp add: retry_feedback_def line_error_def)
  show ?thesis
    using assms(3)
    by (simp add: attempt_step_def attempt_try_def gen chk fb attempted_def Let_def)
qed

lemma retry_loop_exhausted:
  assumes load: "load_spec env yaml_specification = Inr names"
    and gen: "\<forall>i s u. \<exists>t. env_llm env i s u = Inr t"
    and parse: "\<forall>c. \<exists>l m s. env_parse env c = Inl (SyntaxError (Some l) m s)"
    and wr: "\<forall>p c. env_write env p c = None"
    and m: "m = nat max_retries"
    and "k < m"
  shows "\<exists>code l e s w1.
      retry_loop env yaml_specification max_retries (map int [k ..< m]) ai w
        = (Inl (ValueError (''Code generation failed after '' @ str_int max_retries
                  @ '' attempts. Last error: '' @ line_error l e
                  @ ''. Debug code at: '' @ debug_path (max_retries - 1))), w1)
      \<and> env_parse env code = Inl (SyntaxError (Some l) e s)
      \<and> length (llm_calls w1) = length (llm_calls w) + (m - k)
      \<and> length (files w1) = length (files w) + (m - k)
      \<and> last (files w1) = (debug_path (max_retries - 1), code)"
  using assms(6)
proof (induction "m - k" arbitrary: k w ai)
  case 0
  then show ?case by simp
next
  case (Suc d)
  let ?u = "agent_user_prompt yaml_specification ai"
  from gen obtain t where t: "env_llm env (length (llm_calls w)) agent_system_prompt ?u = Inr t"
    by blast
  from parse obtain l e s where p: "env_parse env (strip_fences t) = Inl (SyntaxError (Some l) e s)"
    by blast
  from wr have w0: "env_write env (debug_path (int k)) (strip_fences t) = None" by simp
  let ?w1 = "attempted (int k) agent_system_prompt ?u (strip_fences t) w"
  note step = attempt_step_syntax_error [OF load t w0 p, of max_retries]
  from Suc.prems have upt: "[k ..< m] = k # [Suc k ..< m]" by (simp add: upt_conv_Cons)
  show ?case
  proof (cases "Suc k = m")
    case True
    with m have last: "\<not> int k < max_retries - 1" "int k = max_retries - 1" by linarith+
    from True have d: "m - k = 1" by simp
    have "retry_loop env yaml_specification max_retries (map int [k ..< m]) ai w
        = (Inl (ValueError (''Code generation failed after '' @ str_int max_retries
                  @ '' attempts. Last error: '' @ line_error l e
                  @ ''. Debug code at: '' @ debug_path (max_retries - 1))), ?w1)"
      unfolding upt using step last True by simp
    moreover have "length (llm_calls ?w1) = length (llm_calls w) + (m - k)"
        "length (files ?w1) = length (files w) + (m - k)"
        "last (files ?w1) = (debug_path (max_retries - 1), strip_fences t)"
      using d last by (simp_all add: attempted_def)
    ultimately show ?thesis using p by blast
  next
    case False
    with Suc.prems have lt: "Suc k < m" by simp
    with m have notlast: "int k < max_retries - 1" by linarith
    have dd: "d = m - Suc k" using Suc.hyps(2) by simp
    from Suc.hyps(1) [OF dd lt, of "syntax_feedback (line_error l e) (error_context (strip_fences t) l)" ?w1]
    obtain code l' e' s' w1 where ih:
      "retry_loop env yaml_specification max_retries (map int [Suc k ..< m])
          (syntax_feedback (line_error l e) (error_context (strip_fences t) l)) ?w1
        = (Inl (ValueError (''Code generation failed after '' @ str_int max_retries
                  @ '' attempts. Last error: '' @ line_error l' e'
                  @ ''. Debug code at: '' @ debug_path (max_retries - 1))), w1)"
      "env_parse env code = Inl (SyntaxError (Some l') e' s')"
      "length (llm_calls w1) = length (llm_calls ?w1) + (m - Suc k)"
      "length (files w1) = length (files ?w1) + (m - Suc k)"
      "last (files w1) = (debug_path (max_retries - 1), code)"
      by blast
    have "retry_loop env yaml_specification max_retries (map int [k ..< m]) ai w
        = (Inl (ValueError (''Code generation failed after '' @ str_int max_retries
                  @ '' attempts. Last error: '' @ line_error l' e'
                  @ ''. Debug code at: '' @ debug_path (max_retries - 1))), w1)"
      unfolding upt using step notlast ih(1) by simp
    moreover have "length (llm_calls w1) = length (llm_calls w) + (m - k)"
        "length (files w1) = length (files w) + (m - k)"
      using ih(3,4) lt by (simp_all add: attempted_def)
    ultimately show ?thesis using ih(2,5) by blast
  qed
qed

text \<open>
  Where the specification loads, the generator answers every call, no answer parses,
  every syntax error carries a line number and every file is written, the generator is
  called \<open>max_retries\<close> times (at least one) and the run ends with the \<open>ValueError\<close> that
  carries the error of the last attempt and the path of its preserved code.
\<close>

theorem retries_exhausted_with_line_numbers:
  assumes "load_spec env yaml_specification = Inr names"
    and "1 \<le> max_retries"
    and "\<forall>i s u. \<exists>t. env_llm env i s u = Inr t"
    and "\<forall>c. \<exists>l m s. env_parse env c = Inl (SyntaxError (Some l) m s)"
    and "\<forall>p c. env_write env p c = None"
  shows "\<exists>code l m s w1.
      generate_agent_code_with_retry env yaml_specification max_retries w
        = (Inl (ValueError (''Code generation failed after '' @ str_int max_retries
                  @ '' attempts. Last error: '' @ line_error l m
                  @ ''. Debug code at: '' @ debug_path (max_retries - 1))), w1)
      \<and> env_parse env code = Inl (SyntaxError (Some l) m s)
      \<and> length (llm_calls w1) = length (llm_calls w) + nat max_retries
      \<and> length (files w1) = length (files w) + nat max_retries
      \<and> last (files w1) = (debug_path (max_retries - 1), code)"
proof -
  from assms(2) have pos: "0 < nat max_retries" by simp
  from retry_loop_exhausted [OF assms(1,3,4,5) refl pos, of "[]" w]
  show ?thesis by (simp add: generate_agent_code_with_retry_def py_range_def)
qed

text \<open>
  Where the first answer parses, the generator is called once and the result has
  \<open>retry_count = 0\<close>.
\<close>

theorem first_attempt_passes:
  assumes "load_spec env yaml_specification = Inr names"
    and "1 \<le> max_retries"
    and "env_llm env (length (llm_calls w)) agent_system_prompt
           (agent_user_prompt yaml_specification []) = Inr t"
    and "env_write env (debug_path 0) (strip_fences t) = None"
    and "env_parse env (strip_fences t) = Inr tree"
  shows "generate_agent_code_with_retry env yaml_specification max_retries w
     = (Inr \<lparr>gen_code = strip_fences t, gen_metadata = make_metadata (strip_fences t) names,
              gen_retry_count = Some 0\<rparr>,
        attempted 0 agent_system_prompt (agent_user_prompt yaml_specification [])
          (strip_fences t) w)"
proof -
  from assms(2) have "[0 ..< nat max_retries] = 0 # [Suc 0 ..< nat max_retries]"
    by (simp add: upt_conv_Cons)
  then have r: "py_range max_retries = 0 # map int [Suc 0 ..< nat max_retries]"
    by (simp add: py_range_def)
  have chk: "check_syntax (env_parse env) (strip_fences t) = None"
    using assms(5) by (simp add: check_syntax_def)
  show ?thesis
    using assms(1,3,4)
    by (simp add: generate_agent_code_with_retry_def r attempt_step_def attempt_try_def
        generate_agent_code_def call_llm_def chk attempted_def Let_def)
qed

subsection \<open>A syntax error without a line number\<close>

text \<open>
  Claim C2, at an input where the code departs from it. The generator's answer holds
  a null byte; the parser raises a \<open>SyntaxError\<close> whose \<open>lineno\<close> is \<open>None\<close>, and the
  error text reads \<open>line None\<close>. On the first of three attempts the conversion
  \<open>int('None')\<close> raises \<open>ValueError\<close>, which the loop raises again: the run ends after
  one call of the generator, and not with the error of the last attempt.
\<close>

theorem null_byte_aborts_retry:
  "check_syntax (env_parse null_byte_env) [CHR ''x'', CHR 0x00]
     = Some ''Syntax error at line None: source code string cannot contain null bytes''
   \<and> fst (generate_agent_code_with_retry null_byte_env ''agent_name: CalcAgent'' 3 empty_world)
     = Inl (ValueError (''invalid literal for int() with base 10: '' @ [CHR 0x27] @ ''None'' @ [CHR 0x27]))
   \<and> length (llm_calls (snd (generate_agent_code_with_retry null_byte_env ''agent_name: CalcAgent'' 3
         empty_world))) = 1"
proof -
  have load: "load_spec null_byte_env s = Inr (YStr ''CalcAgent'', YStr ''unknown'', YStr ''MEDIUM'')" for s
    by (simp add: load_spec_def null_byte_env_def dict_get_def)
  have llm: "env_llm null_byte_env i s u = Inr [CHR ''x'', CHR 0x00]" for i s u
    by (simp add: null_byte_env_def)
  have p: "check_syntax (env_parse null_byte_env) c
      = Some ''Syntax error at line None: source code string cannot contain null bytes''" for c
    by (simp add: check_syntax_def null_byte_env_def str_int_option_def)
  have wr: "env_write null_byte_env q c = None" for q c
    by (simp add: null_byte_env_def)
  have st: "strip_fences [CHR ''x'', CHR 0x00] = [CHR ''x'', CHR 0x00]" by code_simp
  have el: "error_line_num ''Syntax error at line None: source code string cannot contain null bytes''
      = Inl (ValueError (''invalid literal for int() with base 10: '' @ [CHR 0x27] @ ''None'' @ [CHR 0x27]))"
    by code_simp
  have fb: "retry_feedback 3 0 c
       ''Syntax error at line None: source code string cannot contain null bytes''
      = Inl (ValueError (''invalid literal for int() with base 10: '' @ [CHR 0x27] @ ''None'' @ [CHR 0x27]))" for c
    using el by (simp add: retry_feedback_def)
  show ?thesis
    by (simp add: generate_agent_code_with_retry_def py_range_3 attempt_step_def attempt_try_def
        generate_agent_code_def load call_llm_def empty_world_def llm p wr st fb Let_def)
qed

subsection \<open>What the generator is told after a failed attempt\<close>


















end
